theory Spec2Isabelle
  imports Main
begin


section \<open>Values and exceptions of the Python runtime\<close>

text \<open>
  \<^verbatim>\<open>agent/src/tools.py\<close> is dynamically typed glue: every value it handles is either one of its
  own string arguments or something \<^verbatim>\<open>response.json()\<close> returned. The model keeps that
  dynamism: a \<open>json\<close> value is what Python's JSON decoder builds (\<open>None\<close>, \<open>bool\<close>,
  \<open>int\<close>, \<open>float\<close>, \<open>str\<close>, \<open>list\<close>, \<open>dict\<close> with string keys in insertion order).
  \<open>JFloat m e\<close> is the double \<open>m * 2 ^ e\<close>; the module never computes with a float, it only
  tests, compares and prints one.
\<close>

datatype json =
    JNull
  | JBool bool
  | JInt int
  | JFloat int int
  | JStr string
  | JList "json list"
  | JObj "(string \<times> json) list"

text \<open>
  The exceptions that can occur. \<open>ConnectionError\<close> stands for everything
  \<^verbatim>\<open>requests.get\<close> itself raises (connection error, timeout, too many redirects) and
  \<open>HTTPError s\<close> for what \<^verbatim>\<open>response.raise_for_status()\<close> raises on status \<open>s\<close>; both are
  subclasses of \<^verbatim>\<open>requests.exceptions.RequestException\<close>. The others are builtin exceptions.
\<close>

datatype py_error =
    ConnectionError
  | HTTPError nat
  | KeyError
  | IndexError
  | TypeError
  | AttributeError
  | ValueError

fun is_request_exception :: "py_error \<Rightarrow> bool" where
  "is_request_exception ConnectionError = True"
| "is_request_exception (HTTPError s) = True"
| "is_request_exception e = False"

type_synonym 'a result = "py_error + 'a"

text \<open>Truth value testing (\<^verbatim>\<open>if x\<close>, \<^verbatim>\<open>if not x\<close>).\<close>

fun truthy :: "json \<Rightarrow> bool" where
  "truthy JNull = False"
| "truthy (JBool b) = b"
| "truthy (JInt i) = (i \<noteq> 0)"
| "truthy (JFloat m e) = (m \<noteq> 0)"
| "truthy (JStr s) = (s \<noteq> [])"
| "truthy (JList xs) = (xs \<noteq> [])"
| "truthy (JObj kvs) = (kvs \<noteq> [])"

text \<open>
  Sequence indexing \<^verbatim>\<open>xs[i]\<close> with Python's negative indices; out of range is
  \<open>IndexError\<close>.
\<close>

definition py_index :: "'a list \<Rightarrow> int \<Rightarrow> 'a result" where
  "py_index xs i =
     (if 0 \<le> i \<and> i < int (length xs) then Inr (xs ! nat i)
      else if i < 0 \<and> - int (length xs) \<le> i then Inr (xs ! nat (int (length xs) + i))
      else Inl IndexError)"

text \<open>
  Subscription \<^verbatim>\<open>v[k]\<close>. A dict decoded from JSON has string keys only, so any other
  hashable key is missing (\<open>KeyError\<close>) and a list or dict key is unhashable
  (\<open>TypeError\<close>). Lists and strings take integer indices (a \<open>bool\<close> is an \<open>int\<close>);
  \<open>None\<close> and numbers are not subscriptable.
\<close>

fun subscript :: "json \<Rightarrow> json \<Rightarrow> json result" where
  "subscript (JObj kvs) (JStr k) = (case map_of kvs k of None \<Rightarrow> Inl KeyError | Some v \<Rightarrow> Inr v)"
| "subscript (JObj kvs) (JList ks) = Inl TypeError"
| "subscript (JObj kvs) (JObj ks) = Inl TypeError"
| "subscript (JObj kvs) k = Inl KeyError"
| "subscript (JList xs) (JInt i) = py_index xs i"
| "subscript (JList xs) (JBool b) = py_index xs (if b then 1 else 0)"
| "subscript (JList xs) k = Inl TypeError"
| "subscript (JStr s) (JInt i) = map_sum id (\<lambda>c. JStr [c]) (py_index s i)"
| "subscript (JStr s) (JBool b) = map_sum id (\<lambda>c. JStr [c]) (py_index s (if b then 1 else 0))"
| "subscript (JStr s) k = Inl TypeError"
| "subscript v k = Inl TypeError"

text \<open>\<^verbatim>\<open>v.get(k)\<close> and \<^verbatim>\<open>v.get(k, default)\<close>: only a dict has the method.\<close>

fun dict_get :: "json \<Rightarrow> string \<Rightarrow> json \<Rightarrow> json result" where
  "dict_get (JObj kvs) k dflt = Inr (case map_of kvs k of None \<Rightarrow> dflt | Some v \<Rightarrow> v)"
| "dict_get v k dflt = Inl AttributeError"

text \<open>\<^verbatim>\<open>len(v)\<close>.\<close>

fun py_len :: "json \<Rightarrow> nat result" where
  "py_len (JStr s) = Inr (length s)"
| "py_len (JList xs) = Inr (length xs)"
| "py_len (JObj kvs) = Inr (length kvs)"
| "py_len v = Inl TypeError"

text \<open>Iteration \<^verbatim>\<open>for item in v\<close>: a dict yields its keys, a string its characters.\<close>

fun py_iter :: "json \<Rightarrow> json list result" where
  "py_iter (JList xs) = Inr xs"
| "py_iter (JObj kvs) = Inr (map (\<lambda>kv. JStr (fst kv)) kvs)"
| "py_iter (JStr s) = Inr (map (\<lambda>c. JStr [c]) s)"
| "py_iter v = Inl TypeError"

text \<open>A list comprehension \<^verbatim>\<open>[f(item) for item in items]\<close> stops at the first exception.\<close>

fun comprehension :: "('a \<Rightarrow> 'b result) \<Rightarrow> 'a list \<Rightarrow> 'b list result" where
  "comprehension f [] = Inr []"
| "comprehension f (x # xs) =
     (case f x of
        Inl e \<Rightarrow> Inl e
      | Inr y \<Rightarrow> (case comprehension f xs of Inl e \<Rightarrow> Inl e | Inr ys \<Rightarrow> Inr (y # ys)))"

subsection \<open>Equality\<close>

text \<open>
  \<^verbatim>\<open>a == b\<close>: numbers compare by value across \<open>bool\<close>, \<open>int\<close> and \<open>float\<close>
  (\<^verbatim>\<open>True == 1 == 1.0\<close>), lists elementwise, dicts as key-value sets.
\<close>

fun num_of :: "json \<Rightarrow> (int \<times> int) option" where
  "num_of (JBool b) = Some (if b then 1 else 0, 0)"
| "num_of (JInt i) = Some (i, 0)"
| "num_of (JFloat m e) = Some (m, e)"
| "num_of v = None"

definition num_eq :: "int \<times> int \<Rightarrow> int \<times> int \<Rightarrow> bool" where
  "num_eq a b =
     (let lo = min (snd a) (snd b)
      in fst a * 2 ^ nat (snd a - lo) = fst b * 2 ^ nat (snd b - lo))"

function py_eq :: "json \<Rightarrow> json \<Rightarrow> bool" where
  "py_eq (JList xs) (JList ys) =
     (length xs = length ys \<and> list_all (\<lambda>p. py_eq (fst p) (snd p)) (zip xs ys))"
| "py_eq (JObj kvs) (JObj kvs') =
     (length kvs = length kvs' \<and>
      list_all (\<lambda>kv. case map_of kvs' (fst kv) of None \<Rightarrow> False | Some v' \<Rightarrow> py_eq (snd kv) v') kvs)"
| "py_eq (JStr s) (JStr t) = (s = t)"
| "py_eq JNull JNull = True"
| "py_eq JNull (JBool b) = False"
| "py_eq JNull (JInt i) = False"
| "py_eq JNull (JFloat m e) = False"
| "py_eq JNull (JStr s) = False"
| "py_eq JNull (JList xs) = False"
| "py_eq JNull (JObj kvs) = False"
| "py_eq (JStr s) JNull = False"
| "py_eq (JStr s) (JBool b) = False"
| "py_eq (JStr s) (JInt i) = False"
| "py_eq (JStr s) (JFloat m e) = False"
| "py_eq (JStr s) (JList xs) = False"
| "py_eq (JStr s) (JObj kvs) = False"
| "py_eq (JList xs) JNull = False"
| "py_eq (JList xs) (JBool b) = False"
| "py_eq (JList xs) (JInt i) = False"
| "py_eq (JList xs) (JFloat m e) = False"
| "py_eq (JList xs) (JStr s) = False"
| "py_eq (JList xs) (JObj kvs) = False"
| "py_eq (JObj kvs) JNull = False"
| "py_eq (JObj kvs) (JBool b) = False"
| "py_eq (JObj kvs) (JInt i) = False"
| "py_eq (JObj kvs) (JFloat m e) = False"
| "py_eq (JObj kvs) (JStr s) = False"
| "py_eq (JObj kvs) (JList xs) = False"
| "py_eq (JBool b) v = (case num_of v of None \<Rightarrow> False | Some y \<Rightarrow> num_eq (if b then 1 else 0, 0) y)"
| "py_eq (JInt i) v = (case num_of v of None \<Rightarrow> False | Some y \<Rightarrow> num_eq (i, 0) y)"
| "py_eq (JFloat m e) v = (case num_of v of None \<Rightarrow> False | Some y \<Rightarrow> num_eq (m, e) y)"
  by pat_completeness auto
termination
proof (relation "measure (\<lambda>p. size (fst p))")
  show "wf (measure (\<lambda>p. size (fst p)))" by simp
next
  fix xs ys :: "json list" and z
  assume "z \<in> set (zip xs ys)"
  then have "fst z \<in> set xs" by (metis prod.collapse set_zip_leftD)
  then have "size (fst z) < Suc (size_list size xs)"
    by (induction xs) auto
  then show "((fst z, snd z), JList xs, JList ys) \<in> measure (\<lambda>p. size (fst p))" by simp
next
  fix kvs kvs' :: "(string \<times> json) list" and z x2
  assume "z \<in> set kvs"
  then have "size (snd z) < Suc (size_list (size_prod (\<lambda>x. 0) size) kvs)"
    by (induction kvs) auto
  then show "((snd z, x2), JObj kvs, JObj kvs') \<in> measure (\<lambda>p. size (fst p))"
    by simp
qed

subsection \<open>Printing\<close>

text \<open>
  \<^verbatim>\<open>str(v)\<close>, as an f-string or \<^verbatim>\<open>str.format\<close> applies it to a value. \<open>None\<close>, booleans,
  integers and strings are printed here; the text of a float, a list or a dict (Python's
  \<^verbatim>\<open>repr\<close>, with its shortest-float and string-quoting rules) is taken from the \<open>py_repr\<close>
  field of the world below.
\<close>

definition digit :: "nat \<Rightarrow> char" where
  "digit n = ''0123456789'' ! n"

function show_nat :: "nat \<Rightarrow> string" where
  "show_nat n = (if n < 10 then [digit n] else show_nat (n div 10) @ [digit (n mod 10)])"
  by pat_completeness auto
termination
  by (relation "measure (\<lambda>n. n)") auto

declare show_nat.simps [simp del]

definition show_int :: "int \<Rightarrow> string" where
  "show_int i = (if i < 0 then CHR ''-'' # show_nat (nat (- i)) else show_nat (nat i))"

section \<open>The world outside the module\<close>

text \<open>
  An HTTP request is a URL with its query parameters (\<^verbatim>\<open>requests.get(url, params=params)\<close>).
  The provider either gives no response (\<^verbatim>\<open>requests.get\<close> raises) or a response with a status
  code and a body; the model covers responses whose body is JSON.
\<close>

datatype request = GET string "(string \<times> json) list"

datatype http_response = NoResponse | Response nat json

text \<open>
  Modelled from the spec: \<^verbatim>\<open>config.py\<close> (class \<^verbatim>\<open>Config\<close>) is not among the sources. Its
  constants are the fields of the record \<open>config\<close>, so every theorem holds for any values of
  them. A success template is the parsed form of a format string that embeds its keyword
  arguments (section 4.3 of the spec: "a formatted sentence embedding the query and the
  result"): literal text and replacement fields \<^verbatim>\<open>{name}\<close> without conversion or format
  specification.
\<close>

datatype piece = Lit string | Field string

record config =
  BLOCKCHAIN_API_URL :: string
  COINGECKO_BASE_URL :: string
  DEFILLAMA_BASE_URL :: string
  PRICE_SUCCESS_MESSAGE :: "piece list"
  PRICE_FAILURE_MESSAGE :: string
  FLOOR_PRICE_SUCCESS_MESSAGE :: "piece list"
  FLOOR_PRICE_FAILURE_MESSAGE :: string
  TVL_SUCCESS_MESSAGE :: "piece list"
  TVL_FAILURE_MESSAGE :: string
  FDV_SUCCESS_MESSAGE :: "piece list"
  FDV_FAILURE_MESSAGE :: string
  MARKET_CAP_SUCCESS_MESSAGE :: "piece list"
  MARKET_CAP_FAILURE_MESSAGE :: string
  API_ERROR_MESSAGE :: string

record world =
  net :: "request \<Rightarrow> http_response"
  py_repr :: "json \<Rightarrow> string"
  Config :: config

fun py_str :: "world \<Rightarrow> json \<Rightarrow> string" where
  "py_str W JNull = ''None''"
| "py_str W (JBool b) = (if b then ''True'' else ''False'')"
| "py_str W (JInt i) = show_int i"
| "py_str W (JStr s) = s"
| "py_str W v = py_repr W v"

text \<open>
  \<^verbatim>\<open>template.format(**kw)\<close>: a replacement field whose name is not a keyword argument
  raises \<open>KeyError\<close>.
\<close>

fun py_format :: "world \<Rightarrow> piece list \<Rightarrow> (string \<times> json) list \<Rightarrow> string result" where
  "py_format W [] kw = Inr []"
| "py_format W (Lit s # ps) kw =
     (case py_format W ps kw of Inl e \<Rightarrow> Inl e | Inr r \<Rightarrow> Inr (s @ r))"
| "py_format W (Field f # ps) kw =
     (case map_of kw f of
        None \<Rightarrow> Inl KeyError
      | Some v \<Rightarrow> (case py_format W ps kw of Inl e \<Rightarrow> Inl e | Inr r \<Rightarrow> Inr (py_str W v @ r)))"

subsection \<open>Runs\<close>

text \<open>
  A call of a function of the module either returns a value or raises, and it issues HTTP
  requests on the way. A run is the outcome together with the requests issued, in order.
  \<open>bind_run\<close> is sequencing: an exception ends the run, and the requests of the rest are
  never issued.
\<close>

type_synonym 'a run = "'a result \<times> request list"

definition ret :: "'a \<Rightarrow> 'a run" where
  "ret x = (Inr x, [])"

definition lift :: "'a result \<Rightarrow> 'a run" where
  "lift r = (r, [])"

definition bind_run :: "'a run \<Rightarrow> ('a \<Rightarrow> 'b run) \<Rightarrow> 'b run" where
  "bind_run m f =
     (case fst m of
        Inl e \<Rightarrow> (Inl e, snd m)
      | Inr x \<Rightarrow> (fst (f x), snd m @ snd (f x)))"

text \<open>
  The three lines every fetcher shares:
  \<^verbatim>\<open>response = requests.get(url, params=params)\<close>,
  \<^verbatim>\<open>response.raise_for_status()\<close>, \<^verbatim>\<open>response.json()\<close>.
  \<^verbatim>\<open>raise_for_status\<close> raises for the client and server error statuses, 400 to 599, and
  for no other.
\<close>

definition http_get_json :: "world \<Rightarrow> request \<Rightarrow> json run" where
  "http_get_json W req =
     (case net W req of
        NoResponse \<Rightarrow> (Inl ConnectionError, [req])
      | Response status body \<Rightarrow>
          if 400 \<le> status \<and> status < 600 then (Inl (HTTPError status), [req])
          else (Inr body, [req]))"

text \<open>
  \<^verbatim>\<open>try: ... except requests.exceptions.RequestException: return msg\<close> and
  \<^verbatim>\<open>try: ... except Exception as e: logging.error(...); return msg\<close> around a run. In the
  fetchers the handler is \<^verbatim>\<open>logging.error(...); raise\<close>, which leaves the outcome as it is;
  the log is not part of the model.
\<close>

definition except_RequestException :: "'a run \<Rightarrow> 'a \<Rightarrow> 'a run" where
  "except_RequestException m msg =
     (case fst m of
        Inl e \<Rightarrow> (if is_request_exception e then (Inr msg, snd m) else (Inl e, snd m))
      | Inr x \<Rightarrow> m)"

definition except_Exception :: "'a run \<Rightarrow> 'a \<Rightarrow> 'a run" where
  "except_Exception m msg = (case fst m of Inl e \<Rightarrow> (Inr msg, snd m) | Inr x \<Rightarrow> m)"

section \<open>The fetchers\<close>

definition get_wallet_balance :: "world \<Rightarrow> string \<Rightarrow> string \<Rightarrow> json run" where
  "get_wallet_balance W wallet_address blockchain =
     bind_run
       (http_get_json W
          (GET (BLOCKCHAIN_API_URL (Config W) @ ''/'' @ blockchain @ ''/wallet/'' @ wallet_address
                  @ ''/balance'') []))
       (\<lambda>data. lift (subscript data (JStr ''balance'')))"

definition get_transaction_history :: "world \<Rightarrow> string \<Rightarrow> string \<Rightarrow> json run" where
  "get_transaction_history W wallet_address blockchain =
     bind_run
       (http_get_json W
          (GET (BLOCKCHAIN_API_URL (Config W) @ ''/'' @ blockchain @ ''/wallet/'' @ wallet_address
                  @ ''/transactions'') []))
       (\<lambda>data. lift (subscript data (JStr ''transactions'')))"

definition get_gas_fees :: "world \<Rightarrow> string \<Rightarrow> json run" where
  "get_gas_fees W blockchain =
     bind_run
       (http_get_json W (GET (BLOCKCHAIN_API_URL (Config W) @ ''/'' @ blockchain @ ''/gas-fees'') []))
       (\<lambda>data. lift (subscript data (JStr ''fees'')))"

definition get_token_metadata :: "world \<Rightarrow> string \<Rightarrow> string \<Rightarrow> json run" where
  "get_token_metadata W token_id blockchain =
     http_get_json W
       (GET (BLOCKCHAIN_API_URL (Config W) @ ''/'' @ blockchain @ ''/tokens/'' @ token_id
               @ ''/metadata'') [])"

text \<open>
  The name resolver. \<open>select_id\<close> is lines 80 to 85, what the resolver does with the decoded
  search response: the coin branch subscripts \<^verbatim>\<open>data['coins']\<close>, the NFT branch tests
  \<^verbatim>\<open>data.get('nfts')\<close>, any other kind raises \<open>ValueError\<close>.
\<close>

definition select_id :: "json \<Rightarrow> string \<Rightarrow> json result" where
  "select_id data ty =
     (if ty = ''coin'' then
        (case subscript data (JStr ''coins'') of
           Inl e \<Rightarrow> Inl e
         | Inr coins \<Rightarrow>
             if truthy coins then
               (case subscript coins (JInt 0) of
                  Inl e \<Rightarrow> Inl e
                | Inr entry \<Rightarrow> subscript entry (JStr ''id''))
             else Inr JNull)
      else if ty = ''nft'' then
        (case dict_get data ''nfts'' JNull of
           Inl e \<Rightarrow> Inl e
         | Inr found \<Rightarrow>
             if truthy found then
               (case subscript data (JStr ''nfts'') of
                  Inl e \<Rightarrow> Inl e
                | Inr nfts \<Rightarrow>
                    (case subscript nfts (JInt 0) of
                       Inl e \<Rightarrow> Inl e
                     | Inr entry \<Rightarrow> subscript entry (JStr ''id'')))
             else Inr JNull)
      else Inl ValueError)"

definition search_request :: "world \<Rightarrow> string \<Rightarrow> request" where
  "search_request W text = GET (COINGECKO_BASE_URL (Config W) @ ''/search'') [(''query'', JStr text)]"

definition get_coingecko_id :: "world \<Rightarrow> string \<Rightarrow> string \<Rightarrow> json run" where
  "get_coingecko_id W text ty =
     bind_run (http_get_json W (search_request W text)) (\<lambda>data. lift (select_id data ty))"

text \<open>The \<^verbatim>\<open>url\<close> and \<^verbatim>\<open>params\<close> lines of the five lookup-by-name fetchers.\<close>

definition price_request :: "world \<Rightarrow> json \<Rightarrow> request" where
  "price_request W coin_id =
     GET (COINGECKO_BASE_URL (Config W) @ ''/simple/price'')
       [(''ids'', coin_id), (''vs_currencies'', JStr ''USD'')]"

definition floor_price_request :: "world \<Rightarrow> json \<Rightarrow> request" where
  "floor_price_request W nft_id = GET (COINGECKO_BASE_URL (Config W) @ ''/nfts/'' @ py_str W nft_id) []"

definition fdv_request :: "world \<Rightarrow> json \<Rightarrow> request" where
  "fdv_request W coin_id = GET (COINGECKO_BASE_URL (Config W) @ ''/coins/'' @ py_str W coin_id) []"

definition market_cap_request :: "world \<Rightarrow> json \<Rightarrow> request" where
  "market_cap_request W coin_id =
     GET (COINGECKO_BASE_URL (Config W) @ ''/coins/markets'')
       [(''ids'', coin_id), (''vs_currency'', JStr ''USD'')]"

definition protocols_request :: "world \<Rightarrow> request" where
  "protocols_request W = GET (DEFILLAMA_BASE_URL (Config W) @ ''/protocols'') []"

definition tvl_request :: "world \<Rightarrow> json \<Rightarrow> request" where
  "tvl_request W protocol_id = GET (DEFILLAMA_BASE_URL (Config W) @ ''/tvl/'' @ py_str W protocol_id) []"

definition get_price :: "world \<Rightarrow> string \<Rightarrow> json run" where
  "get_price W coin =
     bind_run (get_coingecko_id W coin ''coin'') (\<lambda>coin_id.
       if \<not> truthy coin_id then ret JNull
       else
         bind_run (http_get_json W (price_request W coin_id))
           (\<lambda>data. bind_run (lift (subscript data coin_id)) (\<lambda>entry.
              lift (subscript entry (JStr ''usd'')))))"

text \<open>The NFT name is a string, so \<^verbatim>\<open>str(nft)\<close> is the name itself.\<close>

definition get_floor_price :: "world \<Rightarrow> string \<Rightarrow> json run" where
  "get_floor_price W nft =
     bind_run (get_coingecko_id W nft ''nft'') (\<lambda>nft_id.
       if \<not> truthy nft_id then ret JNull
       else
         bind_run (http_get_json W (floor_price_request W nft_id))
           (\<lambda>data. bind_run (lift (subscript data (JStr ''floor_price''))) (\<lambda>entry.
              lift (subscript entry (JStr ''usd'')))))"

definition get_fdv :: "world \<Rightarrow> string \<Rightarrow> json run" where
  "get_fdv W coin =
     bind_run (get_coingecko_id W coin ''coin'') (\<lambda>coin_id.
       if \<not> truthy coin_id then ret JNull
       else
         bind_run (http_get_json W (fdv_request W coin_id))
           (\<lambda>data. bind_run (lift (dict_get data ''market_data'' (JObj []))) (\<lambda>market_data.
              bind_run (lift (dict_get market_data ''fully_diluted_valuation'' (JObj []))) (\<lambda>fdv.
                lift (dict_get fdv ''usd'' JNull)))))"

definition get_market_cap :: "world \<Rightarrow> string \<Rightarrow> json run" where
  "get_market_cap W coin =
     bind_run (get_coingecko_id W coin ''coin'') (\<lambda>coin_id.
       if \<not> truthy coin_id then ret JNull
       else
         bind_run (http_get_json W (market_cap_request W coin_id))
           (\<lambda>data. bind_run (lift (subscript data (JInt 0))) (\<lambda>entry.
              lift (subscript entry (JStr ''market_cap'')))))"

definition get_protocols_list :: "world \<Rightarrow> (json list \<times> json list) run" where
  "get_protocols_list W =
     bind_run (http_get_json W (protocols_request W)) (\<lambda>data.
       bind_run (lift (py_iter data)) (\<lambda>items.
         bind_run (lift (comprehension (\<lambda>item. subscript item (JStr ''slug'')) items)) (\<lambda>slugs.
           bind_run (lift (comprehension (\<lambda>item. subscript item (JStr ''gecko_id'')) items))
             (\<lambda>geckos. ret (slugs, geckos)))))"

text \<open>
  \<^verbatim>\<open>next((i for i, j in zip(id, gecko) if j == tag), None)\<close>: the slug of the first entry whose
  \<open>gecko_id\<close> equals the tag, \<open>None\<close> when there is none.
\<close>

fun first_match :: "(json \<times> json) list \<Rightarrow> json \<Rightarrow> json" where
  "first_match [] tag = JNull"
| "first_match ((i, j) # ps) tag = (if py_eq j tag then i else first_match ps tag)"

definition get_protocol_tvl :: "world \<Rightarrow> string \<Rightarrow> json run" where
  "get_protocol_tvl W protocol_name =
     bind_run (get_protocols_list W) (\<lambda>lists.
       bind_run (get_coingecko_id W protocol_name ''coin'') (\<lambda>tag.
         if \<not> truthy tag then ret JNull
         else
           (let protocol_id = first_match (zip (fst lists) (snd lists)) tag
            in if \<not> truthy protocol_id then ret JNull
               else http_get_json W (tvl_request W protocol_id))))"

section \<open>The best-match utility\<close>

text \<open>
  \<^verbatim>\<open>get_most_similar\<close> (lines 59 to 70) rests on two libraries, which are parameters here as
  the provider is. \<open>tfidf_argsort text data\<close> stands for lines 61 to 65 followed by
  \<^verbatim>\<open>similarity_scores.argsort()[0]\<close>: the indices of the candidates in ascending order of
  their TF-IDF cosine similarity to the text, or the exception scikit-learn raises (it
  raises \<open>ValueError\<close> when the candidates give an empty vocabulary). \<open>ratio a b\<close> stands for
  \<^verbatim>\<open>SequenceMatcher(None, a, b).ratio()\<close>; the code only compares these floats, so the scores
  may be of any linearly ordered type.
\<close>

record 'score text_libs =
  tfidf_argsort :: "string \<Rightarrow> string list \<Rightarrow> nat list result"
  ratio :: "string \<Rightarrow> string \<Rightarrow> 'score"

text \<open>
  \<^verbatim>\<open>max(range(len(sim)), key=sim.__getitem__)\<close>: the index of the first greatest element;
  \<open>max\<close> of an empty range raises \<open>ValueError\<close>. \<open>max_scan\<close> is the loop of \<open>max\<close>: the
  rest of the list, the next index, the best index so far and its value; a later element
  replaces the best one only when it is strictly greater.
\<close>

fun max_scan :: "('score::linorder) list \<Rightarrow> nat \<Rightarrow> nat \<Rightarrow> 'score \<Rightarrow> nat" where
  "max_scan [] i best bv = best"
| "max_scan (x # xs) i best bv =
     (if bv < x then max_scan xs (Suc i) i x else max_scan xs (Suc i) best bv)"

definition py_max_index :: "('score::linorder) list \<Rightarrow> nat result" where
  "py_max_index sim = (case sim of [] \<Rightarrow> Inl ValueError | x # xs \<Rightarrow> Inr (max_scan xs 1 0 x))"

text \<open>
  Line 66 keeps the last 20 indices of the ascending order (all of them when there are
  fewer) and reverses them; line 67 reads the candidates at these indices; line 68 computes
  their ratios to the text; lines 69 and 70 return the candidate at the first greatest
  ratio.
\<close>

definition get_most_similar :: "('score::linorder) text_libs \<Rightarrow> string \<Rightarrow> string list \<Rightarrow> string result" where
  "get_most_similar L text data =
     (case tfidf_argsort L text data of
        Inl e \<Rightarrow> Inl e
      | Inr order \<Rightarrow>
          (let top_indices = rev (drop (length order - 20) order)
           in case comprehension (\<lambda>item. py_index data (int item)) top_indices of
                Inl e \<Rightarrow> Inl e
              | Inr res \<Rightarrow>
                  (let sim = map (\<lambda>item. ratio L text item) res
                   in case py_max_index sim of
                        Inl e \<Rightarrow> Inl e
                      | Inr max_index \<Rightarrow> py_index res (int max_index))))"

section \<open>The tool adapters\<close>

definition get_wallet_balance_tool :: "world \<Rightarrow> string \<Rightarrow> string \<Rightarrow> string run" where
  "get_wallet_balance_tool W wallet_address blockchain =
     except_RequestException
       (bind_run (get_wallet_balance W wallet_address blockchain) (\<lambda>balance.
          if balance = JNull then ret ''Failed to retrieve wallet balance.''
          else ret (''Wallet balance for '' @ wallet_address @ '' on '' @ blockchain @ '': ''
                      @ py_str W balance)))
       ''API error occurred while retrieving wallet balance.''"

definition get_gas_fees_tool :: "world \<Rightarrow> string \<Rightarrow> string run" where
  "get_gas_fees_tool W blockchain =
     except_RequestException
       (bind_run (get_gas_fees W blockchain) (\<lambda>fees.
          if fees = JNull then ret ''Failed to retrieve gas fees.''
          else ret (''Current gas fees on '' @ blockchain @ '': '' @ py_str W fees)))
       ''API error occurred while retrieving gas fees.''"

definition get_token_metadata_tool :: "world \<Rightarrow> string \<Rightarrow> string \<Rightarrow> string run" where
  "get_token_metadata_tool W token_id blockchain =
     except_Exception
       (bind_run (get_token_metadata W token_id blockchain) (\<lambda>metadata.
          if metadata = JNull then ret ''Failed to retrieve token metadata.''
          else ret (''Metadata for token '' @ token_id @ '' on '' @ blockchain @ '': ''
                      @ py_str W metadata)))
       ''API error occurred while retrieving token metadata.''"

definition get_transaction_history_tool :: "world \<Rightarrow> string \<Rightarrow> string \<Rightarrow> string run" where
  "get_transaction_history_tool W wallet_address blockchain =
     except_Exception
       (bind_run (get_transaction_history W wallet_address blockchain) (\<lambda>transactions.
          if transactions = JNull then ret ''No transactions found for this address.''
          else
            bind_run (lift (py_len transactions)) (\<lambda>n.
              if n = 0 then ret ''No transactions found for this address.''
              else ret (''Transaction history for '' @ wallet_address @ '' on '' @ blockchain
                          @ '': '' @ py_str W transactions))))
       ''API error occurred while retrieving transaction history.''"

definition get_coin_price_tool :: "world \<Rightarrow> string \<Rightarrow> string run" where
  "get_coin_price_tool W coin_name =
     except_RequestException
       (bind_run (get_price W coin_name) (\<lambda>price.
          if price = JNull then ret (PRICE_FAILURE_MESSAGE (Config W))
          else lift (py_format W (PRICE_SUCCESS_MESSAGE (Config W))
                       [(''coin_name'', JStr coin_name), (''price'', price)])))
       (API_ERROR_MESSAGE (Config W))"

definition get_nft_floor_price_tool :: "world \<Rightarrow> string \<Rightarrow> string run" where
  "get_nft_floor_price_tool W nft_name =
     except_RequestException
       (bind_run (get_floor_price W nft_name) (\<lambda>floor_price.
          if floor_price = JNull then ret (FLOOR_PRICE_FAILURE_MESSAGE (Config W))
          else lift (py_format W (FLOOR_PRICE_SUCCESS_MESSAGE (Config W))
                       [(''nft_name'', JStr nft_name), (''floor_price'', floor_price)])))
       (API_ERROR_MESSAGE (Config W))"

definition get_protocol_total_value_locked_tool :: "world \<Rightarrow> string \<Rightarrow> string run" where
  "get_protocol_total_value_locked_tool W protocol_name =
     except_RequestException
       (bind_run (get_protocol_tvl W protocol_name) (\<lambda>tvl.
          if tvl = JNull then ret (TVL_FAILURE_MESSAGE (Config W))
          else lift (py_format W (TVL_SUCCESS_MESSAGE (Config W))
                       [(''protocol_name'', JStr protocol_name), (''tvl'', tvl)])))
       (API_ERROR_MESSAGE (Config W))"

definition get_fully_diluted_valuation_tool :: "world \<Rightarrow> string \<Rightarrow> string run" where
  "get_fully_diluted_valuation_tool W coin_name =
     except_RequestException
       (bind_run (get_fdv W coin_name) (\<lambda>fdv.
          if fdv = JNull then ret (FDV_FAILURE_MESSAGE (Config W))
          else lift (py_format W (FDV_SUCCESS_MESSAGE (Config W))
                       [(''coin_name'', JStr coin_name), (''fdv'', fdv)])))
       (API_ERROR_MESSAGE (Config W))"

definition get_coin_market_cap_tool :: "world \<Rightarrow> string \<Rightarrow> string run" where
  "get_coin_market_cap_tool W coin_name =
     except_RequestException
       (bind_run (get_market_cap W coin_name) (\<lambda>market_cap.
          if market_cap = JNull then ret (MARKET_CAP_FAILURE_MESSAGE (Config W))
          else lift (py_format W (MARKET_CAP_SUCCESS_MESSAGE (Config W))
                       [(''coin_name'', JStr coin_name), (''market_cap'', market_cap)])))
       (API_ERROR_MESSAGE (Config W))"

section \<open>Auxiliary notions and example worlds\<close>

text \<open>
  The transport failure, if any, with which a request ends in a world: the exception that
  \<^verbatim>\<open>requests.get\<close> or \<^verbatim>\<open>raise_for_status\<close> raises for it.
\<close>

definition transport_failure :: "world \<Rightarrow> request \<Rightarrow> py_error option" where
  "transport_failure W q =
     (case net W q of
        NoResponse \<Rightarrow> Some ConnectionError
      | Response status body \<Rightarrow>
          if 400 \<le> status \<and> status < 600 then Some (HTTPError status) else None)"

text \<open>
  A run fails closed when a transport failure of any request it issued is its outcome.
\<close>

definition fails_closed :: "world \<Rightarrow> 'a run \<Rightarrow> bool" where
  "fails_closed W m = (\<forall>q\<in>set (snd m). \<forall>e. transport_failure W q = Some e \<longrightarrow> fst m = Inl e)"

text \<open>
  A provider \<open>n\<close> agrees with the world on a list of requests when it answers each of them
  as the world's provider does.
\<close>

definition answers_agree :: "world \<Rightarrow> (request \<Rightarrow> http_response) \<Rightarrow> request list \<Rightarrow> bool" where
  "answers_agree W n t = (\<forall>q\<in>set t. n q = net W q)"

text \<open>
  An example configuration and worlds given by a table of answers (every other request gets
  no response); the concrete evaluations below use them.
\<close>

definition example_config :: config where
  "example_config =
     \<lparr>BLOCKCHAIN_API_URL = ''https://chain.example'',
      COINGECKO_BASE_URL = ''https://api.coingecko.com/api/v3'',
      DEFILLAMA_BASE_URL = ''https://api.llama.fi'',
      PRICE_SUCCESS_MESSAGE = [Lit ''The price of '', Field ''coin_name'', Lit '' is $'', Field ''price''],
      PRICE_FAILURE_MESSAGE = ''Failed to retrieve price.'',
      FLOOR_PRICE_SUCCESS_MESSAGE =
        [Lit ''The floor price of '', Field ''nft_name'', Lit '' is $'', Field ''floor_price''],
      FLOOR_PRICE_FAILURE_MESSAGE = ''Failed to retrieve floor price.'',
      TVL_SUCCESS_MESSAGE = [Lit ''The TVL of '', Field ''protocol_name'', Lit '' is $'', Field ''tvl''],
      TVL_FAILURE_MESSAGE = ''Failed to retrieve TVL.'',
      FDV_SUCCESS_MESSAGE = [Lit ''The FDV of '', Field ''coin_name'', Lit '' is $'', Field ''fdv''],
      FDV_FAILURE_MESSAGE = ''Failed to retrieve FDV.'',
      MARKET_CAP_SUCCESS_MESSAGE =
        [Lit ''The market cap of '', Field ''coin_name'', Lit '' is $'', Field ''market_cap''],
      MARKET_CAP_FAILURE_MESSAGE = ''Failed to retrieve market cap.'',
      API_ERROR_MESSAGE = ''API error.''\<rparr>"

definition world_of :: "(request \<times> http_response) list \<Rightarrow> world" where
  "world_of answers =
     \<lparr>net = (\<lambda>q. case map_of answers q of None \<Rightarrow> NoResponse | Some r \<Rightarrow> r),
      py_repr = (\<lambda>v. ''...''),
      Config = example_config\<rparr>"

definition multiple_choices_world :: world where
  "multiple_choices_world =
     world_of [(GET ''https://chain.example/ethereum/wallet/0xabc/balance'' [],
                Response 300 (JObj [(''balance'', JInt 7)]))]"

definition outage_world :: world where
  "outage_world =
     world_of [(GET ''https://chain.example/ethereum/wallet/0xabc/balance'' [],
                Response 503 JNull)]"

definition bitcoin_search :: request where
  "bitcoin_search = GET ''https://api.coingecko.com/api/v3/search'' [(''query'', JStr ''bitcoin'')]"

definition bitcoin_world :: world where
  "bitcoin_world =
     world_of
       [(bitcoin_search,
         Response 200 (JObj [(''coins'', JList [JObj [(''id'', JStr ''bitcoin'')]]), (''nfts'', JList [])])),
        (GET ''https://api.coingecko.com/api/v3/simple/price''
           [(''ids'', JStr ''bitcoin''), (''vs_currencies'', JStr ''USD'')],
         Response 200 (JObj [(''bitcoin'', JObj [(''usd'', JInt 64000)])])),
        (GET ''https://api.coingecko.com/api/v3/coins/markets''
           [(''ids'', JStr ''bitcoin''), (''vs_currency'', JStr ''USD'')],
         Response 200 (JList []))]"

definition no_coins_key_world :: world where
  "no_coins_key_world = world_of [(bitcoin_search, Response 200 (JObj [(''nfts'', JList [])]))]"

definition unknown_name_world :: world where
  "unknown_name_world =
     world_of
       [(GET ''https://api.coingecko.com/api/v3/search'' [(''query'', JStr ''zzz'')],
         Response 200 (JObj [(''coins'', JList []), (''nfts'', JList [])])),
        (GET ''https://api.llama.fi/protocols'' [],
         Response 200 (JList [JObj [(''slug'', JStr ''aave''), (''gecko_id'', JStr ''aave'')]]))]"

definition ledger_world :: world where
  "ledger_world =
     world_of
       [(GET ''https://chain.example/ethereum/wallet/0xabc/transactions'' [],
         Response 200 (JObj [(''transactions'', JList [JObj [(''hash'', JStr ''0x1'')]])])),
        (GET ''https://chain.example/ethereum/wallet/0xdef/transactions'' [],
         Response 200 (JObj [(''transactions'', JList [])])),
        (GET ''https://chain.example/ethereum/wallet/0x0/transactions'' [],
         Response 200 (JObj [(''transactions'', JNull)])),
        (GET ''https://chain.example/ethereum/wallet/0x1/transactions'' [],
         Response 200 (JObj [(''transactions'', JInt 3)]))]"

definition empty_slug_world :: world where
  "empty_slug_world =
     world_of
       [(GET ''https://api.llama.fi/protocols'' [],
         Response 200 (JList [JObj [(''slug'', JStr []), (''gecko_id'', JStr ''aave'')]])),
        (GET ''https://api.coingecko.com/api/v3/search'' [(''query'', JStr ''aave'')],
         Response 200 (JObj [(''coins'', JList [JObj [(''id'', JStr ''aave'')]]), (''nfts'', JList [])]))]"


definition talkative_net :: "request \<Rightarrow> http_response" where
  "talkative_net q =
     (case net bitcoin_world q of NoResponse \<Rightarrow> Response 200 (JStr ''hello'') | Response status body \<Rightarrow> Response status body)"

definition keyless_world :: world where
  "keyless_world =
     world_of
       [(bitcoin_search, Response 200 (JObj [(''nfts'', JList [])])),
        (GET ''https://api.llama.fi/protocols'' [],
         Response 200 (JList [JObj [(''slug'', JStr ''aave''), (''gecko_id'', JStr ''aave'')]]))]"

definition server_error_world :: world where
  "server_error_world = world_of [(bitcoin_search, Response 500 (JObj []))]"

definition protocols_world :: world where
  "protocols_world =
     world_of
       [(GET ''https://api.llama.fi/protocols'' [],
         Response 200
           (JList
              [JObj [(''slug'', JStr ''uniswap-v3''), (''gecko_id'', JStr ''uniswap'')],
               JObj [(''slug'', JStr ''lido''), (''gecko_id'', JNull)],
               JObj [(''slug'', JStr ''aave-v2''), (''gecko_id'', JStr ''aave'')],
               JObj [(''slug'', JStr ''aave-v3''), (''gecko_id'', JStr ''aave'')]])),
        (GET ''https://api.coingecko.com/api/v3/search'' [(''query'', JStr ''aave'')],
         Response 200 (JObj [(''coins'', JList [JObj [(''id'', JStr ''aave'')]]), (''nfts'', JList [])])),
        (GET ''https://api.coingecko.com/api/v3/search'' [(''query'', JStr ''lido'')],
         Response 200 (JObj [(''coins'', JList [JObj [(''id'', JStr ''lido-dao'')]]), (''nfts'', JList [])])),
        (GET ''https://api.llama.fi/tvl/aave-v2'' [], Response 200 (JInt 12345))]"

text \<open>
  Modelled from the spec: the success templates of \<^verbatim>\<open>config.py\<close>, which is not among the
  sources. Section 4.3 of the spec calls the success text "a formatted sentence embedding
  the query and the result": the replacement fields of such a template are the keyword
  arguments the adapter passes, each printed as \<^verbatim>\<open>str\<close> prints it.
\<close>

fun fields_of :: "piece list \<Rightarrow> string list" where
  "fields_of [] = []"
| "fields_of (Lit s # ps) = fields_of ps"
| "fields_of (Field f # ps) = f # fields_of ps"

definition embeds_arguments :: "piece list \<Rightarrow> string list \<Rightarrow> bool" where
  "embeds_arguments tmpl names = (set (fields_of tmpl) = set names)"

text \<open>
  Example libraries for the best-match utility. The order is the one TF-IDF gives the
  three candidates of the spec for the query \<open>uniswap v3\<close> (only \<open>uniswap\<close> shares a token
  with it, so it comes last in ascending order); an empty candidate list raises, as
  scikit-learn does. The scores are the floats difflib returns for the three candidates,
  \<open>2.0 * 7 / 17\<close>, \<open>2.0 * 6 / 19\<close> and \<open>2.0 * 5 / 21\<close>, each multiplied by \<open>2 ^ 54\<close>.
\<close>

definition example_libs :: "int text_libs" where
  "example_libs =
     \<lparr>tfidf_argsort = (\<lambda>text data. if data = [] then Inl ValueError else Inr [1, 2, 0]),
      ratio = (\<lambda>a b.
        if b = ''uniswap'' then 14835387007808692
        else if b = ''sushiswap'' then 11377514848093884
        else if b = ''pancakeswap'' then 8578285004515230
        else 0)\<rparr>"

definition silent_libs :: "int text_libs" where
  "silent_libs = example_libs\<lparr>tfidf_argsort := (\<lambda>text data. Inr [])\<rparr>"

section \<open>Facts about runs\<close>

lemma bind_run_Inl: "fst m = Inl e \<Longrightarrow> bind_run m f = (Inl e, snd m)"
  by (simp add: bind_run_def)

lemma bind_run_Inr: "fst m = Inr x \<Longrightarrow> bind_run m f = (fst (f x), snd m @ snd (f x))"
  by (simp add: bind_run_def)

lemma bind_run_pair_Inl [simp]: "bind_run (Inl e, t) f = (Inl e, t)"
  by (simp add: bind_run_def)

lemma bind_run_pair_Inr [simp]: "bind_run (Inr x, t) f = (fst (f x), t @ snd (f x))"
  by (simp add: bind_run_def)

lemma fst_ret [simp]: "fst (ret x) = Inr x" and snd_ret [simp]: "snd (ret x) = []"
  by (simp_all add: ret_def)

lemma fst_lift [simp]: "fst (lift r) = r" and snd_lift [simp]: "snd (lift r) = []"
  by (simp_all add: lift_def)

lemma snd_http_get_json [simp]: "snd (http_get_json W q) = [q]"
  by (simp add: http_get_json_def split: http_response.splits)

lemma fails_closed_ret [simp]: "fails_closed W (ret x)"
  by (simp add: fails_closed_def)

lemma fails_closed_lift [simp]: "fails_closed W (lift r)"
  by (simp add: fails_closed_def)

lemma fails_closed_http [simp]: "fails_closed W (http_get_json W q)"
  by (auto simp: fails_closed_def http_get_json_def transport_failure_def split: http_response.splits)

lemma fails_closed_bind:
  assumes "fails_closed W m" and "\<And>x. fails_closed W (f x)"
  shows "fails_closed W (bind_run m f)"
proof (cases "fst m")
  case (Inl e)
  with assms(1) show ?thesis by (simp add: bind_run_Inl fails_closed_def)
next
  case (Inr x)
  with assms(1) have "\<forall>q\<in>set (snd m). transport_failure W q = None"
    by (force simp: fails_closed_def)
  with assms(2)[of x] Inr show ?thesis
    by (auto simp: bind_run_Inr fails_closed_def)
qed

lemma fails_closed_if [simp]:
  "fails_closed W a \<Longrightarrow> fails_closed W b \<Longrightarrow> fails_closed W (if c then a else b)"
  by simp

lemmas fc = fails_closed_bind fails_closed_if fails_closed_http fails_closed_ret fails_closed_lift

lemma fc_wallet: "fails_closed W (get_wallet_balance W a b)"
  unfolding get_wallet_balance_def by (intro fc)
lemma fc_tx: "fails_closed W (get_transaction_history W a b)"
  unfolding get_transaction_history_def by (intro fc)
lemma fc_gas: "fails_closed W (get_gas_fees W b)"
  unfolding get_gas_fees_def by (intro fc)
lemma fc_meta: "fails_closed W (get_token_metadata W a b)"
  unfolding get_token_metadata_def by (intro fc)
lemma fc_id: "fails_closed W (get_coingecko_id W a b)"
  unfolding get_coingecko_id_def by (intro fc)
lemma fc_price: "fails_closed W (get_price W a)"
  unfolding get_price_def by (intro fc fc_id)
lemma fc_floor: "fails_closed W (get_floor_price W a)"
  unfolding get_floor_price_def by (intro fc fc_id)
lemma fc_fdv: "fails_closed W (get_fdv W a)"
  unfolding get_fdv_def by (intro fc fc_id)
lemma fc_mcap: "fails_closed W (get_market_cap W a)"
  unfolding get_market_cap_def by (intro fc fc_id)
lemma fc_plist: "fails_closed W (get_protocols_list W)"
  unfolding get_protocols_list_def by (intro fc)
lemma fc_tvl: "fails_closed W (get_protocol_tvl W a)"
  unfolding get_protocol_tvl_def Let_def by (intro fc fc_id fc_plist)

lemma transport_failure_is_request_exception:
  "transport_failure W q = Some e \<Longrightarrow> is_request_exception e"
  by (auto simp: transport_failure_def split: http_response.splits if_splits)

lemma except_RequestException_caught:
  "fst m = Inl e \<Longrightarrow> is_request_exception e \<Longrightarrow>
   fst (except_RequestException (bind_run m f) msg) = Inr msg"
  by (simp add: except_RequestException_def bind_run_Inl)

lemma except_Exception_caught:
  "fst m = Inl e \<Longrightarrow> fst (except_Exception (bind_run m f) msg) = Inr msg"
  by (simp add: except_Exception_def bind_run_Inl)



lemma snd_get_coingecko_id [simp]: "snd (get_coingecko_id W text ty) = [search_request W text]"
  by (simp add: get_coingecko_id_def bind_run_def split: sum.splits)

lemma snd_get_protocols_list [simp]: "snd (get_protocols_list W) = [protocols_request W]"
  by (simp add: get_protocols_list_def bind_run_def split: sum.splits)

lemma http_get_json_ok:
  "net W q = Response status body \<Longrightarrow> \<not> (400 \<le> status \<and> status < 600) \<Longrightarrow>
   http_get_json W q = (Inr body, [q])"
  by (simp add: http_get_json_def)

lemma http_get_json_no_failure:
  "transport_failure W q = None \<Longrightarrow> \<exists>status body. net W q = Response status body \<and> http_get_json W q = (Inr body, [q])"
  by (auto simp: transport_failure_def http_get_json_def split: http_response.splits if_splits)

lemma except_RequestException_returned:
  "fst m = Inr x \<Longrightarrow> except_RequestException m msg = m"
  by (simp add: except_RequestException_def)

lemma except_RequestException_other:
  "fst m = Inl e \<Longrightarrow> \<not> is_request_exception e \<Longrightarrow> except_RequestException m msg = (Inl e, snd m)"
  by (simp add: except_RequestException_def)

lemma show_int_64000: "show_int 64000 = ''64000''"
  by (simp add: show_int_def show_nat.simps digit_def)

lemma bind_run_lift_Inl [simp]: "bind_run (lift (Inl e)) f = (Inl e, [])"
  by (simp add: bind_run_def)

lemma bind_run_lift_Inr [simp]: "bind_run (lift (Inr x)) f = f x"
  by (simp add: bind_run_def)

lemma bind_run_ret [simp]: "bind_run (ret x) f = f x"
  by (simp add: bind_run_def)

lemma first_match_none:
  "(\<forall>p\<in>set ps. \<not> py_eq (snd p) tag) \<Longrightarrow> first_match ps tag = JNull"
  by (induction ps tag rule: first_match.induct) auto

lemma first_match_first:
  "k < length ps \<Longrightarrow> py_eq (snd (ps ! k)) tag \<Longrightarrow> (\<forall>i<k. \<not> py_eq (snd (ps ! i)) tag) \<Longrightarrow>
   first_match ps tag = fst (ps ! k)"
proof (induction ps tag arbitrary: k rule: first_match.induct)
  case (1 tag)
  then show ?case by simp
next
  case (2 i j ps tag)
  show ?case
  proof (cases k)
    case 0
    with 2 show ?thesis by simp
  next
    case (Suc k')
    with 2(3,4) have head: "\<not> py_eq j tag" by auto
    from Suc 2(2,3,4) have "first_match ps tag = fst (ps ! k')"
      by (intro 2(1)[OF head]) auto
    with head Suc show ?thesis by simp
  qed
qed

lemma py_format_total:
  "(\<forall>f. Field f \<in> set tmpl \<longrightarrow> map_of kw f \<noteq> None) \<Longrightarrow> \<exists>out. py_format W tmpl kw = Inr out"
  by (induction W tmpl kw rule: py_format.induct) (auto split: sum.splits option.splits)

lemma py_format_embeds:
  "py_format W tmpl kw = Inr out \<Longrightarrow> Field f \<in> set tmpl \<Longrightarrow> map_of kw f = Some v \<Longrightarrow>
   \<exists>pre post. out = pre @ py_str W v @ post"
proof (induction tmpl arbitrary: out)
  case Nil
  then show ?case by simp
next
  case (Cons p ps)
  show ?case
  proof (cases p)
    case (Lit s)
    with Cons.prems obtain r where r: "py_format W ps kw = Inr r" "out = s @ r"
      by (auto split: sum.splits)
    from Cons.prems Lit have "Field f \<in> set ps" by simp
    from Cons.IH[OF r(1) this Cons.prems(3)] obtain pre post where "r = pre @ py_str W v @ post"
      by blast
    with r have "out = (s @ pre) @ py_str W v @ post" by simp
    then show ?thesis by blast
  next
    case (Field g)
    with Cons.prems obtain w r where
      r: "map_of kw g = Some w" "py_format W ps kw = Inr r" "out = py_str W w @ r"
      by (auto split: sum.splits option.splits)
    show ?thesis
    proof (cases "g = f")
      case True
      with r Cons.prems have "out = [] @ py_str W v @ r" by simp
      then show ?thesis by blast
    next
      case False
      with Cons.prems Field have "Field f \<in> set ps" by simp
      from Cons.IH[OF r(2) this Cons.prems(3)] obtain pre post where "r = pre @ py_str W v @ post"
        by blast
      with r have "out = (py_str W w @ pre) @ py_str W v @ post" by simp
      then show ?thesis by blast
    qed
  qed
qed

lemma py_str_net [simp]: "py_str (W\<lparr>net := n\<rparr>) v = py_str W v"
  by (cases v) simp_all

lemma py_format_net [simp]: "py_format (W\<lparr>net := n\<rparr>) tmpl kw = py_format W tmpl kw"
proof (induction tmpl)
  case Nil
  show ?case by simp
next
  case (Cons p ps)
  then show ?case by (cases p) (simp_all split: option.splits sum.splits)
qed

lemma requests_net [simp]:
  "search_request (W\<lparr>net := n\<rparr>) text = search_request W text"
  "price_request (W\<lparr>net := n\<rparr>) v = price_request W v"
  "floor_price_request (W\<lparr>net := n\<rparr>) v = floor_price_request W v"
  "fdv_request (W\<lparr>net := n\<rparr>) v = fdv_request W v"
  "market_cap_request (W\<lparr>net := n\<rparr>) v = market_cap_request W v"
  "protocols_request (W\<lparr>net := n\<rparr>) = protocols_request W"
  "tvl_request (W\<lparr>net := n\<rparr>) v = tvl_request W v"
  by (simp_all add: search_request_def price_request_def floor_price_request_def fdv_request_def
      market_cap_request_def protocols_request_def tvl_request_def)

lemma snd_except_RequestException [simp]: "snd (except_RequestException m msg) = snd m"
  by (simp add: except_RequestException_def split: sum.splits)

lemma snd_except_Exception [simp]: "snd (except_Exception m msg) = snd m"
  by (simp add: except_Exception_def split: sum.splits)

lemma http_agree:
  "answers_agree W n (snd (http_get_json W q)) \<Longrightarrow>
   http_get_json (W\<lparr>net := n\<rparr>) q = http_get_json W q"
  by (simp add: answers_agree_def) (simp add: http_get_json_def)

lemma bind_agree:
  assumes "answers_agree W n (snd (bind_run m f))"
      and "answers_agree W n (snd m) \<Longrightarrow> m' = m"
      and "\<And>x. fst m = Inr x \<Longrightarrow> answers_agree W n (snd (f x)) \<Longrightarrow> f' x = f x"
  shows "bind_run m' f' = bind_run m f"
proof (cases "fst m")
  case (Inl e)
  with assms(1) have "answers_agree W n (snd m)" by (simp add: bind_run_Inl)
  with assms(2) have "m' = m" .
  with Inl show ?thesis by (simp add: bind_run_Inl)
next
  case (Inr x)
  with assms(1) have "answers_agree W n (snd m)" "answers_agree W n (snd (f x))"
    by (simp_all add: bind_run_Inr answers_agree_def)
  with assms(2) assms(3)[OF Inr] have "m' = m" "f' x = f x" by simp_all
  with Inr show ?thesis by (simp add: bind_run_Inr)
qed

lemma agree_wallet:
  "answers_agree W n (snd (get_wallet_balance W a b)) \<Longrightarrow>
   get_wallet_balance (W\<lparr>net := n\<rparr>) a b = get_wallet_balance W a b"
  unfolding get_wallet_balance_def by (erule bind_agree) (simp_all add: http_agree)

lemma agree_history:
  "answers_agree W n (snd (get_transaction_history W a b)) \<Longrightarrow>
   get_transaction_history (W\<lparr>net := n\<rparr>) a b = get_transaction_history W a b"
  unfolding get_transaction_history_def by (erule bind_agree) (simp_all add: http_agree)

lemma agree_gas:
  "answers_agree W n (snd (get_gas_fees W b)) \<Longrightarrow> get_gas_fees (W\<lparr>net := n\<rparr>) b = get_gas_fees W b"
  unfolding get_gas_fees_def by (erule bind_agree) (simp_all add: http_agree)

lemma agree_metadata:
  "answers_agree W n (snd (get_token_metadata W a b)) \<Longrightarrow>
   get_token_metadata (W\<lparr>net := n\<rparr>) a b = get_token_metadata W a b"
  unfolding get_token_metadata_def by (simp add: http_agree)

lemma agree_id:
  "answers_agree W n (snd (get_coingecko_id W a ty)) \<Longrightarrow>
   get_coingecko_id (W\<lparr>net := n\<rparr>) a ty = get_coingecko_id W a ty"
  unfolding get_coingecko_id_def requests_net by (erule bind_agree) (simp_all add: http_agree)

lemma agree_price:
  "answers_agree W n (snd (get_price W a)) \<Longrightarrow> get_price (W\<lparr>net := n\<rparr>) a = get_price W a"
  unfolding get_price_def requests_net
  by (erule bind_agree) (auto simp: agree_id http_agree elim!: bind_agree split: if_splits)

lemma agree_floor:
  "answers_agree W n (snd (get_floor_price W a)) \<Longrightarrow>
   get_floor_price (W\<lparr>net := n\<rparr>) a = get_floor_price W a"
  unfolding get_floor_price_def requests_net
  by (erule bind_agree) (auto simp: agree_id http_agree elim!: bind_agree split: if_splits)

lemma agree_fdv:
  "answers_agree W n (snd (get_fdv W a)) \<Longrightarrow> get_fdv (W\<lparr>net := n\<rparr>) a = get_fdv W a"
  unfolding get_fdv_def requests_net
  by (erule bind_agree) (auto simp: agree_id http_agree elim!: bind_agree split: if_splits)

lemma agree_cap:
  "answers_agree W n (snd (get_market_cap W a)) \<Longrightarrow>
   get_market_cap (W\<lparr>net := n\<rparr>) a = get_market_cap W a"
  unfolding get_market_cap_def requests_net
  by (erule bind_agree) (auto simp: agree_id http_agree elim!: bind_agree split: if_splits)

lemma agree_protocols:
  "answers_agree W n (snd (get_protocols_list W)) \<Longrightarrow>
   get_protocols_list (W\<lparr>net := n\<rparr>) = get_protocols_list W"
  unfolding get_protocols_list_def requests_net by (erule bind_agree) (simp_all add: http_agree)

lemma agree_tvl:
  "answers_agree W n (snd (get_protocol_tvl W a)) \<Longrightarrow>
   get_protocol_tvl (W\<lparr>net := n\<rparr>) a = get_protocol_tvl W a"
  unfolding get_protocol_tvl_def requests_net Let_def
  by (erule bind_agree)
     (auto simp: agree_id agree_protocols http_agree elim!: bind_agree split: if_splits)

lemma adapter_agree:
  assumes "answers_agree W n (snd (bind_run m k))"
      and "answers_agree W n (snd m) \<Longrightarrow> m' = m"
      and "\<And>x. k' x = k x"
      and "msg' = msg"
  shows "except_RequestException (bind_run m' k') msg' = except_RequestException (bind_run m k) msg"
    and "except_Exception (bind_run m' k') msg' = except_Exception (bind_run m k) msg"
proof -
  have "bind_run m' k' = bind_run m k"
    using assms(1,2,3) by (auto intro: bind_agree)
  with assms(4) show
    "except_RequestException (bind_run m' k') msg' = except_RequestException (bind_run m k) msg"
    "except_Exception (bind_run m' k') msg' = except_Exception (bind_run m k) msg"
    by simp_all
qed

lemma comprehension_map: "map f xs = map Inr ys \<Longrightarrow> comprehension f xs = Inr ys"
  by (induction xs arbitrary: ys) auto

lemma py_index_nat: "i < length xs \<Longrightarrow> py_index xs (int i) = Inr (xs ! i)"
  by (simp add: py_index_def)

lemma max_scan_spec:
  assumes "S = pre @ xs" and "i = length pre" and "best < i" and "bv = S ! best"
      and "\<forall>j<i. S ! j \<le> bv" and "\<forall>j<best. S ! j < bv"
  shows "max_scan xs i best bv < length S
       \<and> (\<forall>j<length S. S ! j \<le> S ! max_scan xs i best bv)
       \<and> (\<forall>j<max_scan xs i best bv. S ! j < S ! max_scan xs i best bv)"
  using assms
proof (induction xs arbitrary: pre i best bv)
  case Nil
  then show ?case by simp
next
  case (Cons x xs)
  have S: "S = (pre @ [x]) @ xs" and len: "Suc i = length (pre @ [x])" and x: "x = S ! i"
    using Cons.prems(1,2) by simp_all
  show ?case
  proof (cases "bv < x")
    case True
    have below: "\<forall>j<Suc i. S ! j \<le> x"
      using Cons.prems(5) True x by (auto simp: less_Suc_eq intro: order.trans less_imp_le)
    have strict: "\<forall>j<i. S ! j < x"
      using Cons.prems(5) True by (auto intro: le_less_trans)
    from Cons.IH[OF S len _ x below strict] True show ?thesis by simp
  next
    case False
    have below: "\<forall>j<Suc i. S ! j \<le> bv"
      using Cons.prems(5) False x by (auto simp: less_Suc_eq)
    from Cons.IH[OF S len _ Cons.prems(4) below Cons.prems(6)] Cons.prems(3) False
    show ?thesis by simp
  qed
qed

lemma py_max_index_spec:
  assumes "sim \<noteq> []"
  shows "\<exists>m. py_max_index sim = Inr m \<and> m < length sim
           \<and> (\<forall>j<length sim. sim ! j \<le> sim ! m) \<and> (\<forall>j<m. sim ! j < sim ! m)"
proof -
  from assms obtain x xs where sim: "sim = x # xs" by (cases sim) auto
  have "max_scan xs 1 0 x < length sim
       \<and> (\<forall>j<length sim. sim ! j \<le> sim ! max_scan xs 1 0 x)
       \<and> (\<forall>j<max_scan xs 1 0 x. sim ! j < sim ! max_scan xs 1 0 x)"
    by (rule max_scan_spec[where pre = "[x]"]) (simp_all add: sim)
  then show ?thesis by (simp add: py_max_index_def sim)
qed

lemma set_fields_of: "f \<in> set (fields_of tmpl) \<longleftrightarrow> Field f \<in> set tmpl"
  by (induction tmpl rule: fields_of.induct) auto

section \<open>C1: transport failures\<close>

text \<open>
  C1. The claim: for every fetcher, if the provider responds with a non-2xx status or a
  connection error, the fetcher raises that transport failure and the adapter returns its
  fixed API-error string instead of raising.

  What holds: whenever a request that a fetcher issued ends in a transport failure, that is
  no response at all or a response with a status from 400 to 599, the fetcher raises exactly
  that failure and its adapter returns its fixed API-error string. This covers all nine
  fetchers, also the requests of the name resolver and of the protocol list that the
  lookup-by-name fetchers issue first.
\<close>

theorem transport_failure_becomes_api_error:
  "(\<forall>q\<in>set (snd (get_wallet_balance W a b)). \<forall>e. transport_failure W q = Some e \<longrightarrow>
      fst (get_wallet_balance W a b) = Inl e \<and>
      fst (get_wallet_balance_tool W a b) = Inr ''API error occurred while retrieving wallet balance.'')
 \<and> (\<forall>q\<in>set (snd (get_transaction_history W a b)). \<forall>e. transport_failure W q = Some e \<longrightarrow>
      fst (get_transaction_history W a b) = Inl e \<and>
      fst (get_transaction_history_tool W a b) =
        Inr ''API error occurred while retrieving transaction history.'')
 \<and> (\<forall>q\<in>set (snd (get_gas_fees W b)). \<forall>e. transport_failure W q = Some e \<longrightarrow>
      fst (get_gas_fees W b) = Inl e \<and>
      fst (get_gas_fees_tool W b) = Inr ''API error occurred while retrieving gas fees.'')
 \<and> (\<forall>q\<in>set (snd (get_token_metadata W t b)). \<forall>e. transport_failure W q = Some e \<longrightarrow>
      fst (get_token_metadata W t b) = Inl e \<and>
      fst (get_token_metadata_tool W t b) = Inr ''API error occurred while retrieving token metadata.'')
 \<and> (\<forall>q\<in>set (snd (get_price W c)). \<forall>e. transport_failure W q = Some e \<longrightarrow>
      fst (get_price W c) = Inl e \<and>
      fst (get_coin_price_tool W c) = Inr (API_ERROR_MESSAGE (Config W)))
 \<and> (\<forall>q\<in>set (snd (get_floor_price W c)). \<forall>e. transport_failure W q = Some e \<longrightarrow>
      fst (get_floor_price W c) = Inl e \<and>
      fst (get_nft_floor_price_tool W c) = Inr (API_ERROR_MESSAGE (Config W)))
 \<and> (\<forall>q\<in>set (snd (get_fdv W c)). \<forall>e. transport_failure W q = Some e \<longrightarrow>
      fst (get_fdv W c) = Inl e \<and>
      fst (get_fully_diluted_valuation_tool W c) = Inr (API_ERROR_MESSAGE (Config W)))
 \<and> (\<forall>q\<in>set (snd (get_market_cap W c)). \<forall>e. transport_failure W q = Some e \<longrightarrow>
      fst (get_market_cap W c) = Inl e \<and>
      fst (get_coin_market_cap_tool W c) = Inr (API_ERROR_MESSAGE (Config W)))
 \<and> (\<forall>q\<in>set (snd (get_protocol_tvl W c)). \<forall>e. transport_failure W q = Some e \<longrightarrow>
      fst (get_protocol_tvl W c) = Inl e \<and>
      fst (get_protocol_total_value_locked_tool W c) = Inr (API_ERROR_MESSAGE (Config W)))"
proof -
  have caught: "fst (except_RequestException (bind_run m f) msg) = Inr msg"
    if "fails_closed W m" "q \<in> set (snd m)" "transport_failure W q = Some e"
    for m :: "json run" and f :: "json \<Rightarrow> string run" and msg q e
    using that transport_failure_is_request_exception[of W q e]
    by (auto simp: fails_closed_def intro: except_RequestException_caught)
  have caught': "fst (except_Exception (bind_run m f) msg) = Inr msg"
    if "fails_closed W m" "q \<in> set (snd m)" "transport_failure W q = Some e"
    for m :: "json run" and f :: "json \<Rightarrow> string run" and msg q e
    using that by (auto simp: fails_closed_def intro: except_Exception_caught)
  have raised: "fst m = Inl e"
    if "fails_closed W m" "q \<in> set (snd m)" "transport_failure W q = Some e"
    for m :: "json run" and q e
    using that by (auto simp: fails_closed_def)
  show ?thesis
    unfolding get_wallet_balance_tool_def get_transaction_history_tool_def get_gas_fees_tool_def
      get_token_metadata_tool_def get_coin_price_tool_def get_nft_floor_price_tool_def
      get_fully_diluted_valuation_tool_def get_coin_market_cap_tool_def
      get_protocol_total_value_locked_tool_def
    by (intro conjI ballI allI impI)
       (erule (1) raised[OF fc_wallet] raised[OF fc_tx] raised[OF fc_gas] raised[OF fc_meta]
          raised[OF fc_price] raised[OF fc_floor] raised[OF fc_fdv] raised[OF fc_mcap]
          raised[OF fc_tvl]
          caught[OF fc_wallet] caught'[OF fc_tx] caught[OF fc_gas] caught'[OF fc_meta]
          caught[OF fc_price] caught[OF fc_floor] caught[OF fc_fdv] caught[OF fc_mcap]
          caught[OF fc_tvl])+
qed

theorem transport_failure_becomes_api_error_witness:
  "(fst (get_wallet_balance outage_world ''0xabc'' ''ethereum'') = Inl (HTTPError 503)
    \<and> fst (get_wallet_balance_tool outage_world ''0xabc'' ''ethereum'') = Inr ''API error occurred while retrieving wallet balance.'')
 \<and> (fst (get_transaction_history outage_world ''0xabc'' ''ethereum'') = Inl (ConnectionError)
    \<and> fst (get_transaction_history_tool outage_world ''0xabc'' ''ethereum'') = Inr ''API error occurred while retrieving transaction history.'')
 \<and> (fst (get_gas_fees outage_world ''ethereum'') = Inl (ConnectionError)
    \<and> fst (get_gas_fees_tool outage_world ''ethereum'') = Inr ''API error occurred while retrieving gas fees.'')
 \<and> (fst (get_token_metadata outage_world ''42'' ''ethereum'') = Inl (ConnectionError)
    \<and> fst (get_token_metadata_tool outage_world ''42'' ''ethereum'') = Inr ''API error occurred while retrieving token metadata.'')
 \<and> (fst (get_price outage_world ''bitcoin'') = Inl (ConnectionError)
    \<and> fst (get_coin_price_tool outage_world ''bitcoin'') = Inr ''API error.'')
 \<and> (fst (get_floor_price outage_world ''bitcoin'') = Inl (ConnectionError)
    \<and> fst (get_nft_floor_price_tool outage_world ''bitcoin'') = Inr ''API error.'')
 \<and> (fst (get_fdv outage_world ''bitcoin'') = Inl (ConnectionError)
    \<and> fst (get_fully_diluted_valuation_tool outage_world ''bitcoin'') = Inr ''API error.'')
 \<and> (fst (get_market_cap outage_world ''bitcoin'') = Inl (ConnectionError)
    \<and> fst (get_coin_market_cap_tool outage_world ''bitcoin'') = Inr ''API error.'')
 \<and> (fst (get_protocol_tvl outage_world ''bitcoin'') = Inl (ConnectionError)
    \<and> fst (get_protocol_total_value_locked_tool outage_world ''bitcoin'') = Inr ''API error.'')"
proof -
  note T = transport_failure_becomes_api_error
    [of outage_world "''0xabc''" "''ethereum''" "''42''" "''bitcoin''"]
  note evals = outage_world_def world_of_def example_config_def transport_failure_def
    http_get_json_def bitcoin_search_def search_request_def protocols_request_def
    get_coingecko_id_def get_protocols_list_def
  have api: "API_ERROR_MESSAGE (Config outage_world) = ''API error.''"
    by (simp add: outage_world_def world_of_def example_config_def)
  have "GET ''https://chain.example/ethereum/wallet/0xabc/balance'' [] \<in> set (snd (get_wallet_balance outage_world ''0xabc'' ''ethereum''))"
    and "transport_failure outage_world (GET ''https://chain.example/ethereum/wallet/0xabc/balance'' []) = Some (HTTPError 503)"
    by (simp_all add: evals get_wallet_balance_def)
  with T have c1: "fst (get_wallet_balance outage_world ''0xabc'' ''ethereum'') = Inl (HTTPError 503)
    \<and> fst (get_wallet_balance_tool outage_world ''0xabc'' ''ethereum'') = Inr ''API error occurred while retrieving wallet balance.''"
    by (simp add: api)
  have "GET ''https://chain.example/ethereum/wallet/0xabc/transactions'' [] \<in> set (snd (get_transaction_history outage_world ''0xabc'' ''ethereum''))"
    and "transport_failure outage_world (GET ''https://chain.example/ethereum/wallet/0xabc/transactions'' []) = Some (ConnectionError)"
    by (simp_all add: evals get_transaction_history_def)
  with T have c2: "fst (get_transaction_history outage_world ''0xabc'' ''ethereum'') = Inl (ConnectionError)
    \<and> fst (get_transaction_history_tool outage_world ''0xabc'' ''ethereum'') = Inr ''API error occurred while retrieving transaction history.''"
    by (simp add: api)
  have "GET ''https://chain.example/ethereum/gas-fees'' [] \<in> set (snd (get_gas_fees outage_world ''ethereum''))"
    and "transport_failure outage_world (GET ''https://chain.example/ethereum/gas-fees'' []) = Some (ConnectionError)"
    by (simp_all add: evals get_gas_fees_def)
  with T have c3: "fst (get_gas_fees outage_world ''ethereum'') = Inl (ConnectionError)
    \<and> fst (get_gas_fees_tool outage_world ''ethereum'') = Inr ''API error occurred while retrieving gas fees.''"
    by (simp add: api)
  have "GET ''https://chain.example/ethereum/tokens/42/metadata'' [] \<in> set (snd (get_token_metadata outage_world ''42'' ''ethereum''))"
    and "transport_failure outage_world (GET ''https://chain.example/ethereum/tokens/42/metadata'' []) = Some (ConnectionError)"
    by (simp_all add: evals get_token_metadata_def)
  with T have c4: "fst (get_token_metadata outage_world ''42'' ''ethereum'') = Inl (ConnectionError)
    \<and> fst (get_token_metadata_tool outage_world ''42'' ''ethereum'') = Inr ''API error occurred while retrieving token metadata.''"
    by (simp add: api)
  have "bitcoin_search \<in> set (snd (get_price outage_world ''bitcoin''))"
    and "transport_failure outage_world (bitcoin_search) = Some (ConnectionError)"
    by (simp_all add: evals get_price_def)
  with T have c5: "fst (get_price outage_world ''bitcoin'') = Inl (ConnectionError)
    \<and> fst (get_coin_price_tool outage_world ''bitcoin'') = Inr ''API error.''"
    by (simp add: api)
  have "bitcoin_search \<in> set (snd (get_floor_price outage_world ''bitcoin''))"
    and "transport_failure outage_world (bitcoin_search) = Some (ConnectionError)"
    by (simp_all add: evals get_floor_price_def)
  with T have c6: "fst (get_floor_price outage_world ''bitcoin'') = Inl (ConnectionError)
    \<and> fst (get_nft_floor_price_tool outage_world ''bitcoin'') = Inr ''API error.''"
    by (simp add: api)
  have "bitcoin_search \<in> set (snd (get_fdv outage_world ''bitcoin''))"
    and "transport_failure outage_world (bitcoin_search) = Some (ConnectionError)"
    by (simp_all add: evals get_fdv_def)
  with T have c7: "fst (get_fdv outage_world ''bitcoin'') = Inl (ConnectionError)
    \<and> fst (get_fully_diluted_valuation_tool outage_world ''bitcoin'') = Inr ''API error.''"
    by (simp add: api)
  have "bitcoin_search \<in> set (snd (get_market_cap outage_world ''bitcoin''))"
    and "transport_failure outage_world (bitcoin_search) = Some (ConnectionError)"
    by (simp_all add: evals get_market_cap_def)
  with T have c8: "fst (get_market_cap outage_world ''bitcoin'') = Inl (ConnectionError)
    \<and> fst (get_coin_market_cap_tool outage_world ''bitcoin'') = Inr ''API error.''"
    by (simp add: api)
  have "GET ''https://api.llama.fi/protocols'' [] \<in> set (snd (get_protocol_tvl outage_world ''bitcoin''))"
    and "transport_failure outage_world (GET ''https://api.llama.fi/protocols'' []) = Some (ConnectionError)"
    by (simp_all add: evals get_protocol_tvl_def)
  with T have c9: "fst (get_protocol_tvl outage_world ''bitcoin'') = Inl (ConnectionError)
    \<and> fst (get_protocol_total_value_locked_tool outage_world ''bitcoin'') = Inr ''API error.''"
    by (simp add: api)
  from c1 c2 c3 c4 c5 c6 c7 c8 c9 show ?thesis by blast
qed

text \<open>
  The claim as stated speaks of every non-2xx status. \<^verbatim>\<open>raise_for_status\<close> lets the
  informational and redirection statuses pass: on a 300 response with a JSON body the wallet
  fetcher returns the balance and the adapter formats it.
\<close>

theorem non_2xx_status_counterexample:
  "net multiple_choices_world (GET ''https://chain.example/ethereum/wallet/0xabc/balance'' []) =
     Response 300 (JObj [(''balance'', JInt 7)])
   \<and> \<not> (200 \<le> (300::nat) \<and> (300::nat) < 300)
   \<and> get_wallet_balance multiple_choices_world ''0xabc'' ''ethereum'' =
       (Inr (JInt 7), [GET ''https://chain.example/ethereum/wallet/0xabc/balance'' []])
   \<and> fst (get_wallet_balance_tool multiple_choices_world ''0xabc'' ''ethereum'') =
       Inr ''Wallet balance for 0xabc on ethereum: 7''"
  by (simp add: multiple_choices_world_def world_of_def example_config_def get_wallet_balance_def
      get_wallet_balance_tool_def http_get_json_def except_RequestException_def
      show_int_def show_nat.simps digit_def)

section \<open>C2: a name that resolves to nothing\<close>

text \<open>
  C2. The claim: for each lookup-by-name fetcher (price, FDV, market cap, floor price,
  protocol TVL), an empty or absent search result makes the fetcher return \<open>None\<close> without
  a request to its data endpoint, and the adapter return its fixed failure message.

  The code does so for an empty list and, in the NFT branch, for an absent one. When the
  search response has no key \<open>coins\<close>, the resolver raises \<open>KeyError\<close> (line 81), and so do
  the four fetchers that resolve a coin and their adapters, whose handlers catch
  \<open>RequestException\<close> only. The floor price fetcher, on the same response, returns \<open>None\<close>
  and its adapter the failure message.
\<close>

theorem absent_coins_key_breaks_lookups:
  "net keyless_world bitcoin_search = Response 200 (JObj [(''nfts'', JList [])])
 \<and> get_price keyless_world ''bitcoin'' = (Inl KeyError, [bitcoin_search])
 \<and> get_coin_price_tool keyless_world ''bitcoin'' = (Inl KeyError, [bitcoin_search])
 \<and> get_fdv keyless_world ''bitcoin'' = (Inl KeyError, [bitcoin_search])
 \<and> get_fully_diluted_valuation_tool keyless_world ''bitcoin'' = (Inl KeyError, [bitcoin_search])
 \<and> get_market_cap keyless_world ''bitcoin'' = (Inl KeyError, [bitcoin_search])
 \<and> get_coin_market_cap_tool keyless_world ''bitcoin'' = (Inl KeyError, [bitcoin_search])
 \<and> get_protocol_tvl keyless_world ''bitcoin'' =
      (Inl KeyError, [GET ''https://api.llama.fi/protocols'' [], bitcoin_search])
 \<and> get_protocol_total_value_locked_tool keyless_world ''bitcoin'' =
      (Inl KeyError, [GET ''https://api.llama.fi/protocols'' [], bitcoin_search])
 \<and> get_floor_price keyless_world ''bitcoin'' = (Inr JNull, [bitcoin_search])
 \<and> get_nft_floor_price_tool keyless_world ''bitcoin'' =
      (Inr ''Failed to retrieve floor price.'', [bitcoin_search])"
  by (simp add: keyless_world_def world_of_def example_config_def bitcoin_search_def
      http_get_json_def search_request_def protocols_request_def get_coingecko_id_def
      select_id_def get_price_def get_fdv_def get_market_cap_def get_floor_price_def
      get_protocols_list_def get_protocol_tvl_def get_coin_price_tool_def
      get_fully_diluted_valuation_tool_def get_coin_market_cap_tool_def
      get_nft_floor_price_tool_def get_protocol_total_value_locked_tool_def
      except_RequestException_def)

text \<open>
  What holds of all five fetchers: whenever the resolver returns \<open>None\<close> for the name, the
  fetcher returns \<open>None\<close>, the only request issued is the search request (for the TVL
  fetcher the protocol list request before it), so no request goes to the data endpoint,
  and the adapter returns its fixed failure message. The TVL fetcher reaches the resolver
  only after the protocol list has been fetched, hence the additional premise there.
\<close>

theorem not_found_skips_data_endpoint:
  "(fst (get_coingecko_id W name ''coin'') = Inr JNull \<longrightarrow>
      get_price W name = (Inr JNull, [search_request W name])
    \<and> (\<forall>coin_id. price_request W coin_id \<notin> set (snd (get_price W name)))
    \<and> get_coin_price_tool W name = (Inr (PRICE_FAILURE_MESSAGE (Config W)), [search_request W name])
    \<and> get_fdv W name = (Inr JNull, [search_request W name])
    \<and> (\<forall>coin_id. fdv_request W coin_id \<notin> set (snd (get_fdv W name)))
    \<and> get_fully_diluted_valuation_tool W name =
        (Inr (FDV_FAILURE_MESSAGE (Config W)), [search_request W name])
    \<and> get_market_cap W name = (Inr JNull, [search_request W name])
    \<and> (\<forall>coin_id. market_cap_request W coin_id \<notin> set (snd (get_market_cap W name)))
    \<and> get_coin_market_cap_tool W name =
        (Inr (MARKET_CAP_FAILURE_MESSAGE (Config W)), [search_request W name]))
 \<and> (fst (get_coingecko_id W name ''nft'') = Inr JNull \<longrightarrow>
      get_floor_price W name = (Inr JNull, [search_request W name])
    \<and> (\<forall>nft_id. floor_price_request W nft_id \<notin> set (snd (get_floor_price W name)))
    \<and> get_nft_floor_price_tool W name =
        (Inr (FLOOR_PRICE_FAILURE_MESSAGE (Config W)), [search_request W name]))
 \<and> (fst (get_protocols_list W) = Inr protocols \<and> fst (get_coingecko_id W name ''coin'') = Inr JNull \<longrightarrow>
      get_protocol_tvl W name = (Inr JNull, [protocols_request W, search_request W name])
    \<and> (\<forall>protocol_id. tvl_request W protocol_id \<notin> set (snd (get_protocol_tvl W name)))
    \<and> get_protocol_total_value_locked_tool W name =
        (Inr (TVL_FAILURE_MESSAGE (Config W)), [protocols_request W, search_request W name]))"
proof (intro conjI impI)
  assume none: "fst (get_coingecko_id W name ''coin'') = Inr JNull"
  show price: "get_price W name = (Inr JNull, [search_request W name])"
    using none by (simp add: get_price_def bind_run_Inr)
  show "\<forall>coin_id. price_request W coin_id \<notin> set (snd (get_price W name))"
    by (simp add: price price_request_def search_request_def)
  show "get_coin_price_tool W name = (Inr (PRICE_FAILURE_MESSAGE (Config W)), [search_request W name])"
    by (simp add: get_coin_price_tool_def price except_RequestException_def ret_def)
  show fdv: "get_fdv W name = (Inr JNull, [search_request W name])"
    using none by (simp add: get_fdv_def bind_run_Inr)
  show "\<forall>coin_id. fdv_request W coin_id \<notin> set (snd (get_fdv W name))"
    by (simp add: fdv fdv_request_def search_request_def)
  show "get_fully_diluted_valuation_tool W name =
      (Inr (FDV_FAILURE_MESSAGE (Config W)), [search_request W name])"
    by (simp add: get_fully_diluted_valuation_tool_def fdv except_RequestException_def ret_def)
  show cap: "get_market_cap W name = (Inr JNull, [search_request W name])"
    using none by (simp add: get_market_cap_def bind_run_Inr)
  show "\<forall>coin_id. market_cap_request W coin_id \<notin> set (snd (get_market_cap W name))"
    by (simp add: cap market_cap_request_def search_request_def)
  show "get_coin_market_cap_tool W name =
      (Inr (MARKET_CAP_FAILURE_MESSAGE (Config W)), [search_request W name])"
    by (simp add: get_coin_market_cap_tool_def cap except_RequestException_def ret_def)
next
  assume none: "fst (get_coingecko_id W name ''nft'') = Inr JNull"
  show floor: "get_floor_price W name = (Inr JNull, [search_request W name])"
    using none by (simp add: get_floor_price_def bind_run_Inr)
  show "\<forall>nft_id. floor_price_request W nft_id \<notin> set (snd (get_floor_price W name))"
    by (simp add: floor floor_price_request_def search_request_def)
  show "get_nft_floor_price_tool W name =
      (Inr (FLOOR_PRICE_FAILURE_MESSAGE (Config W)), [search_request W name])"
    by (simp add: get_nft_floor_price_tool_def floor except_RequestException_def ret_def)
next
  assume both: "fst (get_protocols_list W) = Inr protocols \<and> fst (get_coingecko_id W name ''coin'') = Inr JNull"
  show tvl: "get_protocol_tvl W name = (Inr JNull, [protocols_request W, search_request W name])"
    using both by (simp add: get_protocol_tvl_def bind_run_Inr)
  show "\<forall>protocol_id. tvl_request W protocol_id \<notin> set (snd (get_protocol_tvl W name))"
    by (simp add: tvl tvl_request_def search_request_def protocols_request_def)
  show "get_protocol_total_value_locked_tool W name =
      (Inr (TVL_FAILURE_MESSAGE (Config W)), [protocols_request W, search_request W name])"
    by (simp add: get_protocol_total_value_locked_tool_def tvl except_RequestException_def ret_def)
qed

theorem not_found_skips_data_endpoint_witness:
  "fst (get_coingecko_id unknown_name_world ''zzz'' ''coin'') = Inr JNull
 \<and> fst (get_coingecko_id unknown_name_world ''zzz'' ''nft'') = Inr JNull
 \<and> fst (get_protocols_list unknown_name_world) = Inr ([JStr ''aave''], [JStr ''aave''])
 \<and> get_price unknown_name_world ''zzz'' =
      (Inr JNull, [GET ''https://api.coingecko.com/api/v3/search'' [(''query'', JStr ''zzz'')]])
 \<and> fst (get_coin_price_tool unknown_name_world ''zzz'') = Inr ''Failed to retrieve price.''
 \<and> fst (get_fully_diluted_valuation_tool unknown_name_world ''zzz'') = Inr ''Failed to retrieve FDV.''
 \<and> fst (get_coin_market_cap_tool unknown_name_world ''zzz'') = Inr ''Failed to retrieve market cap.''
 \<and> fst (get_nft_floor_price_tool unknown_name_world ''zzz'') = Inr ''Failed to retrieve floor price.''
 \<and> get_protocol_total_value_locked_tool unknown_name_world ''zzz'' =
      (Inr ''Failed to retrieve TVL.'',
       [GET ''https://api.llama.fi/protocols'' [],
        GET ''https://api.coingecko.com/api/v3/search'' [(''query'', JStr ''zzz'')]])"
proof -
  note evals = unknown_name_world_def world_of_def example_config_def http_get_json_def
    search_request_def protocols_request_def get_coingecko_id_def get_protocols_list_def
    select_id_def
  have coin: "fst (get_coingecko_id unknown_name_world ''zzz'' ''coin'') = Inr JNull"
    by (simp add: evals)
  have nft: "fst (get_coingecko_id unknown_name_world ''zzz'' ''nft'') = Inr JNull"
    by (simp add: evals)
  have lists: "fst (get_protocols_list unknown_name_world) = Inr ([JStr ''aave''], [JStr ''aave''])"
    by (simp add: evals)
  have cfg: "Config unknown_name_world = example_config"
    by (simp add: unknown_name_world_def world_of_def)
  from not_found_skips_data_endpoint
    [of unknown_name_world "''zzz''" "([JStr ''aave''], [JStr ''aave''])"] coin nft lists
  show ?thesis
    by (simp add: cfg search_request_def protocols_request_def example_config_def)
qed

section \<open>C3: the name resolver on a search response\<close>

text \<open>
  C3. The claim: the resolver returns the \<open>id\<close> of the first entry of the list for the kind,
  and \<open>None\<close> rather than an exception when that list is empty or its key is absent. The
  NFT branch tests \<^verbatim>\<open>data.get('nfts')\<close> and does so; the coin branch subscripts
  \<^verbatim>\<open>data['coins']\<close>, so a response without the key \<open>coins\<close> raises \<open>KeyError\<close>, which the
  price adapter does not catch. On the response of the spec the resolver gives
  \<open>bitcoin\<close> for a coin and \<open>None\<close> for an NFT.
\<close>

theorem absent_coins_key_raises:
  "net no_coins_key_world bitcoin_search = Response 200 (JObj [(''nfts'', JList [])])
 \<and> get_coingecko_id no_coins_key_world ''bitcoin'' ''coin'' = (Inl KeyError, [bitcoin_search])
 \<and> get_coingecko_id no_coins_key_world ''bitcoin'' ''nft'' = (Inr JNull, [bitcoin_search])
 \<and> get_coin_price_tool no_coins_key_world ''bitcoin'' = (Inl KeyError, [bitcoin_search])
 \<and> get_coingecko_id bitcoin_world ''bitcoin'' ''coin'' = (Inr (JStr ''bitcoin''), [bitcoin_search])
 \<and> get_coingecko_id bitcoin_world ''bitcoin'' ''nft'' = (Inr JNull, [bitcoin_search])"
  by (simp add: no_coins_key_world_def bitcoin_world_def world_of_def example_config_def
      bitcoin_search_def http_get_json_def search_request_def get_coingecko_id_def select_id_def
      get_coin_price_tool_def get_price_def except_RequestException_def py_index_def)

text \<open>
  What the resolver does with a decoded response object, list by list: only the absent
  \<open>coins\<close> key raises.
\<close>

lemma select_id_on_lists:
  "map_of kvs ''coins'' = Some (JList (entry # rest)) \<Longrightarrow>
     select_id (JObj kvs) ''coin'' = subscript entry (JStr ''id'')"
  "map_of kvs ''coins'' = Some (JList []) \<Longrightarrow> select_id (JObj kvs) ''coin'' = Inr JNull"
  "map_of kvs ''coins'' = None \<Longrightarrow> select_id (JObj kvs) ''coin'' = Inl KeyError"
  "map_of kvs ''nfts'' = Some (JList (entry # rest)) \<Longrightarrow>
     select_id (JObj kvs) ''nft'' = subscript entry (JStr ''id'')"
  "map_of kvs ''nfts'' = Some (JList []) \<Longrightarrow> select_id (JObj kvs) ''nft'' = Inr JNull"
  "map_of kvs ''nfts'' = None \<Longrightarrow> select_id (JObj kvs) ''nft'' = Inr JNull"
  by (simp_all add: select_id_def py_index_def)

section \<open>C4: the protocol TVL fetcher\<close>

text \<open>
  C4. The claim: \<open>get_protocol_tvl\<close> fetches the protocol list, resolves the name, selects
  the entry whose \<open>gecko_id\<close> equals the resolved id, returns \<open>None\<close> without a request to
  the TVL endpoint when the resolution fails or no entry matches, and otherwise gets the TVL
  endpoint for the matched slug and returns the payload.

  What holds, when the protocol endpoint answers with a list of entries that each have a
  \<open>slug\<close> and a \<open>gecko_id\<close> and the resolver has returned a tag: the fetcher reads the
  slug and the \<open>gecko_id\<close> of every entry, in the order of the list; its requests are the
  protocol list request and then the search request; a tag that is
  \<open>None\<close> (or otherwise false) gives \<open>None\<close> with no further request; so does a list in
  which no \<open>gecko_id\<close> equals the tag; the first entry whose \<open>gecko_id\<close> equals the tag is
  the one selected, and the fetcher then requests the TVL endpoint for its slug and returns
  the payload (or raises the transport failure of that request). The guard
  \<^verbatim>\<open>if not protocol_id\<close> also fires when the selected slug itself is false, an empty string
  or \<open>null\<close>: then the fetcher returns \<open>None\<close> without the third request although an entry
  matched.
\<close>

theorem protocol_tvl_steps:
  assumes "net W (protocols_request W) = Response status (JList entries)"
      and "\<not> (400 \<le> status \<and> status < 600)"
      and "map (\<lambda>item. subscript item (JStr ''slug'')) entries = map Inr slugs"
      and "map (\<lambda>item. subscript item (JStr ''gecko_id'')) entries = map Inr geckos"
      and "fst (get_coingecko_id W name ''coin'') = Inr tag"
  shows "get_protocols_list W = (Inr (slugs, geckos), [protocols_request W])
       \<and> length slugs = length entries \<and> length geckos = length entries
       \<and> (\<not> truthy tag \<longrightarrow>
            get_protocol_tvl W name = (Inr JNull, [protocols_request W, search_request W name]))
       \<and> ((\<forall>i<length entries. \<not> py_eq (geckos ! i) tag) \<longrightarrow>
            get_protocol_tvl W name = (Inr JNull, [protocols_request W, search_request W name]))
       \<and> (truthy tag \<and> k < length entries \<and> py_eq (geckos ! k) tag
            \<and> (\<forall>i<k. \<not> py_eq (geckos ! i) tag) \<and> truthy (slugs ! k) \<longrightarrow>
            get_protocol_tvl W name =
              (fst (http_get_json W (tvl_request W (slugs ! k))),
               [protocols_request W, search_request W name, tvl_request W (slugs ! k)])
          \<and> (\<forall>status' payload.
                net W (tvl_request W (slugs ! k)) = Response status' payload
                \<and> \<not> (400 \<le> status' \<and> status' < 600) \<longrightarrow>
                fst (get_protocol_tvl W name) = Inr payload))
       \<and> (truthy tag \<and> k < length entries \<and> py_eq (geckos ! k) tag
            \<and> (\<forall>i<k. \<not> py_eq (geckos ! i) tag) \<and> \<not> truthy (slugs ! k) \<longrightarrow>
            get_protocol_tvl W name = (Inr JNull, [protocols_request W, search_request W name]))
       \<and> (\<forall>protocol_id. tvl_request W protocol_id \<notin> {protocols_request W, search_request W name})"
proof -
  have plist: "get_protocols_list W = (Inr (slugs, geckos), [protocols_request W])"
    using comprehension_map[OF assms(3)] comprehension_map[OF assms(4)]
    by (simp add: get_protocols_list_def http_get_json_ok[OF assms(1,2)] ret_def)
  have len_s: "length slugs = length entries"
    using arg_cong[OF assms(3), of length] by simp
  have len_g: "length geckos = length entries"
    using arg_cong[OF assms(4), of length] by simp
  have unfold: "get_protocol_tvl W name =
      (if \<not> truthy tag then (Inr JNull, [protocols_request W, search_request W name])
       else if \<not> truthy (first_match (zip slugs geckos) tag)
         then (Inr JNull, [protocols_request W, search_request W name])
         else (fst (http_get_json W (tvl_request W (first_match (zip slugs geckos) tag))),
               [protocols_request W, search_request W name,
                tvl_request W (first_match (zip slugs geckos) tag)]))"
    using assms(5) by (simp add: get_protocol_tvl_def plist bind_run_Inr Let_def)
  have none: "first_match (zip slugs geckos) tag = JNull"
    if "\<forall>i<length entries. \<not> py_eq (geckos ! i) tag"
  proof (rule first_match_none, rule ballI)
    fix p assume "p \<in> set (zip slugs geckos)"
    then obtain i where "i < length geckos" "snd p = geckos ! i"
      by (auto simp: set_zip)
    with that len_g show "\<not> py_eq (snd p) tag" by simp
  qed
  have first: "first_match (zip slugs geckos) tag = slugs ! k"
    if "k < length entries" "py_eq (geckos ! k) tag" "\<forall>i<k. \<not> py_eq (geckos ! i) tag"
    using that len_s len_g first_match_first[of k "zip slugs geckos" tag] by simp
  show ?thesis
  proof (intro conjI impI allI)
    show "get_protocols_list W = (Inr (slugs, geckos), [protocols_request W])" by (rule plist)
    show "length slugs = length entries" by (rule len_s)
    show "length geckos = length entries" by (rule len_g)
    show "get_protocol_tvl W name = (Inr JNull, [protocols_request W, search_request W name])"
      if "\<not> truthy tag"
      using that unfold by simp
    show "get_protocol_tvl W name = (Inr JNull, [protocols_request W, search_request W name])"
      if "\<forall>i<length entries. \<not> py_eq (geckos ! i) tag"
      using none[OF that] unfold by simp
    show "get_protocol_tvl W name =
        (fst (http_get_json W (tvl_request W (slugs ! k))),
         [protocols_request W, search_request W name, tvl_request W (slugs ! k)])"
      if "truthy tag \<and> k < length entries \<and> py_eq (geckos ! k) tag
            \<and> (\<forall>i<k. \<not> py_eq (geckos ! i) tag) \<and> truthy (slugs ! k)"
      using that first unfold by simp
    show "fst (get_protocol_tvl W name) = Inr payload"
      if "truthy tag \<and> k < length entries \<and> py_eq (geckos ! k) tag
            \<and> (\<forall>i<k. \<not> py_eq (geckos ! i) tag) \<and> truthy (slugs ! k)"
        and "net W (tvl_request W (slugs ! k)) = Response status' payload
                \<and> \<not> (400 \<le> status' \<and> status' < 600)"
      for status' payload
      using that first unfold by (simp add: http_get_json_ok)
    show "get_protocol_tvl W name = (Inr JNull, [protocols_request W, search_request W name])"
      if "truthy tag \<and> k < length entries \<and> py_eq (geckos ! k) tag
            \<and> (\<forall>i<k. \<not> py_eq (geckos ! i) tag) \<and> \<not> truthy (slugs ! k)"
      using that first unfold by simp
    show "tvl_request W protocol_id \<notin> {protocols_request W, search_request W name}"
      for protocol_id
      by (simp add: tvl_request_def protocols_request_def search_request_def)
  qed
qed

text \<open>
  The theorem at a list of four entries: the first has another \<open>gecko_id\<close>, the second has
  none, the third and the fourth both have the \<open>gecko_id\<close> \<open>aave\<close>. The name \<open>aave\<close> goes to
  the slug of the third entry; the name \<open>lido\<close> resolves to \<open>lido-dao\<close>, which no entry has,
  and gives \<open>None\<close> after two requests.
\<close>

theorem protocol_tvl_steps_witness:
  "get_protocols_list protocols_world =
      (Inr ([JStr ''uniswap-v3'', JStr ''lido'', JStr ''aave-v2'', JStr ''aave-v3''],
            [JStr ''uniswap'', JNull, JStr ''aave'', JStr ''aave'']),
       [GET ''https://api.llama.fi/protocols'' []])
 \<and> fst (get_coingecko_id protocols_world ''aave'' ''coin'') = Inr (JStr ''aave'')
 \<and> get_protocol_tvl protocols_world ''aave'' =
      (Inr (JInt 12345),
       [GET ''https://api.llama.fi/protocols'' [],
        GET ''https://api.coingecko.com/api/v3/search'' [(''query'', JStr ''aave'')],
        GET ''https://api.llama.fi/tvl/aave-v2'' []])
 \<and> fst (get_coingecko_id protocols_world ''lido'' ''coin'') = Inr (JStr ''lido-dao'')
 \<and> get_protocol_tvl protocols_world ''lido'' =
      (Inr JNull,
       [GET ''https://api.llama.fi/protocols'' [],
        GET ''https://api.coingecko.com/api/v3/search'' [(''query'', JStr ''lido'')]])"
proof -
  let ?entries = "[JObj [(''slug'', JStr ''uniswap-v3''), (''gecko_id'', JStr ''uniswap'')],
               JObj [(''slug'', JStr ''lido''), (''gecko_id'', JNull)],
               JObj [(''slug'', JStr ''aave-v2''), (''gecko_id'', JStr ''aave'')],
               JObj [(''slug'', JStr ''aave-v3''), (''gecko_id'', JStr ''aave'')]]"
  let ?slugs = "[JStr ''uniswap-v3'', JStr ''lido'', JStr ''aave-v2'', JStr ''aave-v3'']"
  let ?geckos = "[JStr ''uniswap'', JNull, JStr ''aave'', JStr ''aave'']"
  note evals = protocols_world_def world_of_def example_config_def http_get_json_def
    search_request_def protocols_request_def tvl_request_def get_coingecko_id_def
    select_id_def py_index_def
  have answer: "net protocols_world (protocols_request protocols_world) =
      Response 200 (JList ?entries)"
    by (simp add: evals)
  have ok: "\<not> (400 \<le> (200::nat) \<and> (200::nat) < 600)" by simp
  have slugs: "map (\<lambda>item. subscript item (JStr ''slug'')) ?entries = map Inr ?slugs" by simp
  have geckos: "map (\<lambda>item. subscript item (JStr ''gecko_id'')) ?entries = map Inr ?geckos"
    by simp
  have aave: "fst (get_coingecko_id protocols_world ''aave'' ''coin'') = Inr (JStr ''aave'')"
    by (simp add: evals)
  have lido: "fst (get_coingecko_id protocols_world ''lido'' ''coin'') = Inr (JStr ''lido-dao'')"
    by (simp add: evals)
  have tvl: "http_get_json protocols_world (tvl_request protocols_world (JStr ''aave-v2'')) =
      (Inr (JInt 12345), [GET ''https://api.llama.fi/tvl/aave-v2'' []])"
    by (simp add: evals)
  have reqs: "protocols_request protocols_world = GET ''https://api.llama.fi/protocols'' []"
    "search_request protocols_world ''aave'' =
       GET ''https://api.coingecko.com/api/v3/search'' [(''query'', JStr ''aave'')]"
    "search_request protocols_world ''lido'' =
       GET ''https://api.coingecko.com/api/v3/search'' [(''query'', JStr ''lido'')]"
    "tvl_request protocols_world (JStr ''aave-v2'') = GET ''https://api.llama.fi/tvl/aave-v2'' []"
    by (simp_all add: evals)
  have earlier: "\<forall>i<2. \<not> py_eq (?geckos ! i) (JStr ''aave'')"
    by (simp add: less_Suc_eq numeral_2_eq_2)
  have nowhere: "\<forall>i<length ?entries. \<not> py_eq (?geckos ! i) (JStr ''lido-dao'')"
    by (simp add: less_Suc_eq)
  have computed: "get_protocols_list protocols_world =
        (Inr (?slugs, ?geckos), [GET ''https://api.llama.fi/protocols'' []])"
    "get_protocol_tvl protocols_world ''aave'' =
      (Inr (JInt 12345),
       [GET ''https://api.llama.fi/protocols'' [],
        GET ''https://api.coingecko.com/api/v3/search'' [(''query'', JStr ''aave'')],
        GET ''https://api.llama.fi/tvl/aave-v2'' []])"
    "get_protocol_tvl protocols_world ''lido'' =
      (Inr JNull,
       [GET ''https://api.llama.fi/protocols'' [],
        GET ''https://api.coingecko.com/api/v3/search'' [(''query'', JStr ''lido'')]])"
    by (simp_all add: evals get_protocols_list_def get_protocol_tvl_def)
  note T = protocol_tvl_steps[OF answer ok slugs geckos]
  from T[OF aave, of 2] earlier tvl
  have found: "get_protocols_list protocols_world =
        (Inr (?slugs, ?geckos), [protocols_request protocols_world])"
    "get_protocol_tvl protocols_world ''aave'' =
      (Inr (JInt 12345),
       [protocols_request protocols_world, search_request protocols_world ''aave'',
        tvl_request protocols_world (JStr ''aave-v2'')])"
    by simp_all
  from T[OF lido, of 0] nowhere
  have missing: "get_protocol_tvl protocols_world ''lido'' =
      (Inr JNull, [protocols_request protocols_world, search_request protocols_world ''lido''])"
    by blast
  from aave lido found missing computed show ?thesis by (simp add: reqs)
qed

text \<open>
  The claim as stated sends every matched entry to the TVL endpoint. With the protocol list
  \<^verbatim>\<open>[{"slug": "", "gecko_id": "aave"}]\<close> and the resolved id \<open>aave\<close> the entry matches, and the
  fetcher returns \<open>None\<close> after two requests.
\<close>

theorem matched_entry_with_empty_slug_counterexample:
  "fst (get_protocols_list empty_slug_world) = Inr ([JStr []], [JStr ''aave''])
 \<and> fst (get_coingecko_id empty_slug_world ''aave'' ''coin'') = Inr (JStr ''aave'')
 \<and> py_eq (JStr ''aave'') (JStr ''aave'')
 \<and> get_protocol_tvl empty_slug_world ''aave'' =
      (Inr JNull,
       [GET ''https://api.llama.fi/protocols'' [],
        GET ''https://api.coingecko.com/api/v3/search'' [(''query'', JStr ''aave'')]])"
  by (simp add: empty_slug_world_def world_of_def example_config_def http_get_json_def
      search_request_def protocols_request_def get_coingecko_id_def get_protocols_list_def
      get_protocol_tvl_def select_id_def py_index_def)

section \<open>C5: the best-match utility\<close>

text \<open>
  C5. The claim: for every candidate list and query, \<open>get_most_similar\<close> narrows the
  candidates to the top 20 by TF-IDF cosine similarity, re-ranks that set by the
  character-sequence ratio to the query and returns the top-ranked candidate; on the
  candidates \<open>uniswap\<close>, \<open>sushiswap\<close>, \<open>pancakeswap\<close> and the query \<open>uniswap v3\<close> it returns
  \<open>uniswap\<close>.

  What holds: when the candidate list is not empty and the TF-IDF stage returns its
  ascending order of the candidates (a permutation of their indices), the narrowed set
  \<open>res\<close> is the candidates at the last 20 indices of that order, best first, all of them
  when there are fewer than 20; the function returns the first member of \<open>res\<close> whose ratio
  to the query is greatest. For the three candidates of the spec, whatever order the first
  stage gives them, the result is \<open>uniswap\<close> as soon as its ratio is greater than the other
  two (difflib gives 14/17 against 12/19 and 10/21).
\<close>

theorem get_most_similar_two_stages:
  fixes L :: "('score::linorder) text_libs"
  assumes "tfidf_argsort L text data = Inr order"
      and "distinct order"
      and "set order = {..<length data}"
  shows "(data \<noteq> [] \<longrightarrow>
           (\<exists>m. m < length (rev (drop (length order - 20) order))
              \<and> get_most_similar L text data =
                  Inr (map (\<lambda>i. data ! i) (rev (drop (length order - 20) order)) ! m)
              \<and> (\<forall>j < length (rev (drop (length order - 20) order)).
                    ratio L text (map (\<lambda>i. data ! i) (rev (drop (length order - 20) order)) ! j)
                    \<le> ratio L text (map (\<lambda>i. data ! i) (rev (drop (length order - 20) order)) ! m))
              \<and> (\<forall>j < m.
                    ratio L text (map (\<lambda>i. data ! i) (rev (drop (length order - 20) order)) ! j)
                    < ratio L text (map (\<lambda>i. data ! i) (rev (drop (length order - 20) order)) ! m)))
           \<and> length (rev (drop (length order - 20) order)) = min 20 (length data))
       \<and> (text = ''uniswap v3'' \<and> data = [''uniswap'', ''sushiswap'', ''pancakeswap'']
            \<and> ratio L text ''sushiswap'' < ratio L text ''uniswap''
            \<and> ratio L text ''pancakeswap'' < ratio L text ''uniswap'' \<longrightarrow>
            get_most_similar L text data = Inr ''uniswap'')"
proof -
  let ?top = "rev (drop (length order - 20) order)"
  let ?res = "map (\<lambda>i. data ! i) ?top"
  have len_order: "length order = length data"
    using assms(2,3) distinct_card[of order] by simp
  have in_range: "\<forall>i\<in>set ?top. i < length data"
    using assms(3) by (auto dest: in_set_dropD)
  have res: "comprehension (\<lambda>item. py_index data (int item)) ?top = Inr ?res"
    by (rule comprehension_map) (use in_range in \<open>simp add: py_index_nat\<close>)
  have len_top: "length ?top = min 20 (length data)"
    using len_order by simp
  have general: "\<exists>m. m < length ?top
              \<and> get_most_similar L text data = Inr (?res ! m)
              \<and> (\<forall>j < length ?top. ratio L text (?res ! j) \<le> ratio L text (?res ! m))
              \<and> (\<forall>j < m. ratio L text (?res ! j) < ratio L text (?res ! m))"
    if "data \<noteq> []"
  proof -
    let ?sim = "map (\<lambda>item. ratio L text item) ?res"
    from that len_order have "order \<noteq> []" by auto
    then have "length order - 20 < length order" by (cases order) auto
    then have "drop (length order - 20) order \<noteq> []" by simp
    then have "?sim \<noteq> []" by simp
    from py_max_index_spec[OF this] obtain m where
      m: "py_max_index ?sim = Inr m" "m < length ?sim"
        "\<forall>j<length ?sim. ?sim ! j \<le> ?sim ! m" "\<forall>j<m. ?sim ! j < ?sim ! m"
      by blast
    have "get_most_similar L text data = Inr (?res ! m)"
      using m(1,2) by (simp add: get_most_similar_def assms(1) res Let_def py_index_nat)
    moreover have "\<forall>j < length ?top. ratio L text (?res ! j) \<le> ratio L text (?res ! m)"
      using m(2,3) by simp
    moreover have "\<forall>j < m. ratio L text (?res ! j) < ratio L text (?res ! m)"
      using m(2,4) by simp
    ultimately show ?thesis using m(2) by auto
  qed
  have spec_case: "get_most_similar L text data = Inr ''uniswap''"
    if inst: "text = ''uniswap v3'' \<and> data = [''uniswap'', ''sushiswap'', ''pancakeswap'']
            \<and> ratio L text ''sushiswap'' < ratio L text ''uniswap''
            \<and> ratio L text ''pancakeswap'' < ratio L text ''uniswap''"
  proof -
    from inst have "data \<noteq> []" by auto
    from general[OF this] obtain m where
      m: "m < length ?top" "get_most_similar L text data = Inr (?res ! m)"
        "\<forall>j < length ?top. ratio L text (?res ! j) \<le> ratio L text (?res ! m)"
      by blast
    have top: "?top = rev order" using len_order inst by simp
    have "0 \<in> set order" using assms(3) inst by simp
    then obtain j where j: "j < length ?top" "?top ! j = 0"
      unfolding top by (metis in_set_conv_nth length_rev set_rev)
    with inst have "?res ! j = ''uniswap''" by simp
    with m(3) j(1) have best: "ratio L text ''uniswap'' \<le> ratio L text (?res ! m)" by metis
    have "?top ! m \<in> set order" using m(1) top by (metis nth_mem set_rev)
    then have "?top ! m < 3" using assms(3) inst by simp
    then have "?res ! m = ''uniswap'' \<or> ?res ! m = ''sushiswap'' \<or> ?res ! m = ''pancakeswap''"
      using m(1) inst by (auto simp: less_Suc_eq numeral_3_eq_3)
    with best inst have "?res ! m = ''uniswap''" by auto
    with m(2) show ?thesis by simp
  qed
  show ?thesis using general len_top spec_case by blast
qed

theorem get_most_similar_two_stages_witness:
  "py_max_index [1, 3, 3, 2::int] = Inr 1
 \<and> tfidf_argsort example_libs ''uniswap v3'' [''uniswap'', ''sushiswap'', ''pancakeswap''] = Inr [1, 2, 0]
 \<and> ratio example_libs ''uniswap v3'' ''sushiswap'' < ratio example_libs ''uniswap v3'' ''uniswap''
 \<and> ratio example_libs ''uniswap v3'' ''pancakeswap'' < ratio example_libs ''uniswap v3'' ''uniswap''
 \<and> get_most_similar example_libs ''uniswap v3'' [''uniswap'', ''sushiswap'', ''pancakeswap''] =
      Inr ''uniswap''"
proof -
  have order: "tfidf_argsort example_libs ''uniswap v3'' [''uniswap'', ''sushiswap'', ''pancakeswap'']
      = Inr [1, 2, 0]"
    by (simp add: example_libs_def)
  have d: "distinct [1, 2, 0::nat]" by simp
  have s: "set [1, 2, 0::nat] = {..<length [''uniswap'', ''sushiswap'', ''pancakeswap'']}"
    by auto
  have r1: "ratio example_libs ''uniswap v3'' ''sushiswap'' < ratio example_libs ''uniswap v3'' ''uniswap''"
    and r2: "ratio example_libs ''uniswap v3'' ''pancakeswap'' < ratio example_libs ''uniswap v3'' ''uniswap''"
    by (simp_all add: example_libs_def)
  have first_greatest: "py_max_index [1, 3, 3, 2::int] = Inr 1"
    by (simp add: py_max_index_def)
  have computed: "get_most_similar example_libs ''uniswap v3''
      [''uniswap'', ''sushiswap'', ''pancakeswap''] = Inr ''uniswap''"
    by (simp add: get_most_similar_def example_libs_def py_index_def py_max_index_def)
  from get_most_similar_two_stages[OF order d s] r1 r2
  have "get_most_similar example_libs ''uniswap v3'' [''uniswap'', ''sushiswap'', ''pancakeswap''] =
      Inr ''uniswap''"
    by blast
  with order r1 r2 first_greatest computed show ?thesis by blast
qed

text \<open>
  The claim as stated covers every candidate list. On the empty list the function raises
  \<open>ValueError\<close>: scikit-learn raises it for the empty vocabulary, and if the first stage
  returned an empty order, \<open>max\<close> of the empty range in line 69 would raise it.
\<close>

theorem empty_candidate_list_counterexample:
  "get_most_similar example_libs ''uniswap v3'' [] = Inl ValueError
 \<and> tfidf_argsort silent_libs ''uniswap v3'' [] = Inr []
 \<and> get_most_similar silent_libs ''uniswap v3'' [] = Inl ValueError"
  by (simp add: get_most_similar_def example_libs_def silent_libs_def py_max_index_def)

section \<open>C6: an unsupported kind\<close>

text \<open>
  C6. The claim: for every search response, a kind other than \<open>coin\<close> and \<open>nft\<close> makes the
  resolver raise the invalid-argument error unconditionally, and never return \<open>None\<close>.

  What holds: whatever the decoded response is, lines 80 to 85 raise \<open>ValueError\<close> for such
  a kind. The kind is examined only after \<^verbatim>\<open>requests.get\<close> and \<^verbatim>\<open>raise_for_status\<close>, so
  the call raises \<open>ValueError\<close> when the search request brings a response whose status is
  not from 400 to 599, and raises the transport failure instead when the request gets no
  response or such a status. In no case does the resolver return a value, \<open>None\<close>
  included.
\<close>

theorem unsupported_kind_is_value_error:
  assumes "ty \<noteq> ''coin''" and "ty \<noteq> ''nft''"
  shows "select_id data ty = Inl ValueError
       \<and> (net W (search_request W text) = Response status data \<and> \<not> (400 \<le> status \<and> status < 600) \<longrightarrow>
            get_coingecko_id W text ty = (Inl ValueError, [search_request W text]))
       \<and> (transport_failure W (search_request W text) = Some e \<longrightarrow>
            get_coingecko_id W text ty = (Inl e, [search_request W text]))
       \<and> (\<forall>v. fst (get_coingecko_id W text ty) \<noteq> Inr v)"
proof (intro conjI impI allI)
  show bad: "select_id data ty = Inl ValueError" for data
    using assms by (simp add: select_id_def)
  show "get_coingecko_id W text ty = (Inl ValueError, [search_request W text])"
    if "net W (search_request W text) = Response status data \<and> \<not> (400 \<le> status \<and> status < 600)"
    using that by (simp add: get_coingecko_id_def http_get_json_def bad)
  show "get_coingecko_id W text ty = (Inl e, [search_request W text])"
    if "transport_failure W (search_request W text) = Some e"
    using that
    by (auto simp: get_coingecko_id_def http_get_json_def transport_failure_def
        split: http_response.splits if_splits)
  show "fst (get_coingecko_id W text ty) \<noteq> Inr v" for v
    by (cases "fst (http_get_json W (search_request W text))")
       (simp_all add: get_coingecko_id_def bind_run_def bad)
qed

theorem unsupported_kind_is_value_error_witness:
  "''token'' \<noteq> ''coin'' \<and> ''token'' \<noteq> ''nft''
 \<and> net bitcoin_world (search_request bitcoin_world ''bitcoin'') =
      Response 200 (JObj [(''coins'', JList [JObj [(''id'', JStr ''bitcoin'')]]), (''nfts'', JList [])])
 \<and> get_coingecko_id bitcoin_world ''bitcoin'' ''token'' = (Inl ValueError, [bitcoin_search])
 \<and> transport_failure outage_world (search_request outage_world ''bitcoin'') = Some ConnectionError
 \<and> get_coingecko_id outage_world ''bitcoin'' ''token'' = (Inl ConnectionError, [bitcoin_search])"
proof -
  have kinds: "''token'' \<noteq> ''coin''" "''token'' \<noteq> ''nft''" by simp_all
  have answer: "net bitcoin_world (search_request bitcoin_world ''bitcoin'') =
      Response 200 (JObj [(''coins'', JList [JObj [(''id'', JStr ''bitcoin'')]]), (''nfts'', JList [])])"
    by (simp add: bitcoin_world_def world_of_def example_config_def bitcoin_search_def
        search_request_def)
  have req: "search_request bitcoin_world ''bitcoin'' = bitcoin_search"
    "search_request outage_world ''bitcoin'' = bitcoin_search"
    by (simp_all add: bitcoin_world_def outage_world_def world_of_def example_config_def
        bitcoin_search_def search_request_def)
  have down: "transport_failure outage_world (search_request outage_world ''bitcoin'') =
      Some ConnectionError"
    by (simp add: outage_world_def world_of_def example_config_def search_request_def
        transport_failure_def)
  from unsupported_kind_is_value_error[OF kinds, of _ bitcoin_world "''bitcoin''" 200] answer
  have "get_coingecko_id bitcoin_world ''bitcoin'' ''token'' =
      (Inl ValueError, [search_request bitcoin_world ''bitcoin''])"
    by simp
  moreover from unsupported_kind_is_value_error
    [OF kinds, of _ outage_world "''bitcoin''" _ ConnectionError] down
  have "get_coingecko_id outage_world ''bitcoin'' ''token'' =
      (Inl ConnectionError, [search_request outage_world ''bitcoin''])"
    by simp
  ultimately show ?thesis using kinds answer req down by simp
qed

text \<open>
  The claim as stated holds for every search response. A response with status 500 is one,
  and on it the call raises \<open>HTTPError\<close>, not \<open>ValueError\<close>.
\<close>

theorem unsupported_kind_on_error_status_counterexample:
  "''token'' \<noteq> ''coin'' \<and> ''token'' \<noteq> ''nft''
 \<and> net server_error_world bitcoin_search = Response 500 (JObj [])
 \<and> get_coingecko_id server_error_world ''bitcoin'' ''token'' = (Inl (HTTPError 500), [bitcoin_search])
 \<and> HTTPError 500 \<noteq> ValueError"
  by (simp add: server_error_world_def world_of_def example_config_def bitcoin_search_def
      search_request_def get_coingecko_id_def http_get_json_def)

section \<open>C7: the price adapter end to end\<close>

text \<open>
  C7. \<open>get_coin_price_tool\<close>, for any coin name: when the search resolves the name to an
  id and the pricing endpoint answers with an object that holds, under that id, an object
  with a price under \<open>usd\<close>, the fetcher returns that price, and the adapter returns the
  success template formatted with the coin name and that price; the text contains the
  coin name and the price as \<^verbatim>\<open>str\<close> prints it. With the name \<open>bitcoin\<close>, the id \<open>bitcoin\<close>
  and the answer \<^verbatim>\<open>{"bitcoin": {"usd": 64000}}\<close> the text contains \<open>bitcoin\<close> and \<open>64000\<close>.
  When the search finds no coin (an empty \<open>coins\<close> list) the adapter returns the fixed
  price-failure message. The success template is the one of the spec: a sentence that
  embeds the keyword arguments \<open>coin_name\<close> and \<open>price\<close>.
\<close>

theorem price_message_embeds_answer:
  "(fst (get_coingecko_id W coin_name ''coin'') = Inr (JStr coin_id) \<and> coin_id \<noteq> []
    \<and> net W (price_request W (JStr coin_id)) = Response status (JObj answer)
    \<and> \<not> (400 \<le> status \<and> status < 600)
    \<and> map_of answer coin_id = Some (JObj entry) \<and> map_of entry ''usd'' = Some price
    \<and> price \<noteq> JNull
    \<and> embeds_arguments (PRICE_SUCCESS_MESSAGE (Config W)) [''coin_name'', ''price'']
    \<longrightarrow> get_price W coin_name =
          (Inr price, [search_request W coin_name, price_request W (JStr coin_id)])
      \<and> (\<exists>msg. get_coin_price_tool W coin_name =
                  (Inr msg, [search_request W coin_name, price_request W (JStr coin_id)])
            \<and> py_format W (PRICE_SUCCESS_MESSAGE (Config W))
                 [(''coin_name'', JStr coin_name), (''price'', price)] = Inr msg
            \<and> (\<exists>pre post. msg = pre @ coin_name @ post)
            \<and> (\<exists>pre post. msg = pre @ py_str W price @ post)
            \<and> (coin_name = ''bitcoin'' \<and> price = JInt 64000 \<longrightarrow>
                 (\<exists>pre post. msg = pre @ ''bitcoin'' @ post)
               \<and> (\<exists>pre post. msg = pre @ ''64000'' @ post))))
 \<and> (net W (search_request W coin_name) = Response status' (JObj found)
    \<and> \<not> (400 \<le> status' \<and> status' < 600)
    \<and> map_of found ''coins'' = Some (JList [])
    \<longrightarrow> fst (get_coin_price_tool W coin_name) = Inr (PRICE_FAILURE_MESSAGE (Config W)))"
proof (intro conjI impI)
  let ?tmpl = "PRICE_SUCCESS_MESSAGE (Config W)"
  let ?kw = "[(''coin_name'', JStr coin_name), (''price'', price)]"
  let ?trace = "[search_request W coin_name, price_request W (JStr coin_id)]"
  assume A: "fst (get_coingecko_id W coin_name ''coin'') = Inr (JStr coin_id) \<and> coin_id \<noteq> []
    \<and> net W (price_request W (JStr coin_id)) = Response status (JObj answer)
    \<and> \<not> (400 \<le> status \<and> status < 600)
    \<and> map_of answer coin_id = Some (JObj entry) \<and> map_of entry ''usd'' = Some price
    \<and> price \<noteq> JNull
    \<and> embeds_arguments ?tmpl [''coin_name'', ''price'']"
  then have answer: "http_get_json W (price_request W (JStr coin_id)) =
      (Inr (JObj answer), [price_request W (JStr coin_id)])"
    by (simp add: http_get_json_ok)
  from A show price: "get_price W coin_name = (Inr price, ?trace)"
    by (simp add: get_price_def bind_run_Inr answer)
  from A have fields: "\<And>f. Field f \<in> set ?tmpl \<longleftrightarrow> f = ''coin_name'' \<or> f = ''price''"
    by (auto simp: embeds_arguments_def set_fields_of[symmetric])
  then have "\<forall>f. Field f \<in> set ?tmpl \<longrightarrow> map_of ?kw f \<noteq> None" by auto
  then obtain msg where msg: "py_format W ?tmpl ?kw = Inr msg"
    using py_format_total by blast
  have name: "\<exists>pre post. msg = pre @ coin_name @ post"
    using py_format_embeds[OF msg, of "''coin_name''" "JStr coin_name"] fields by simp
  have number: "\<exists>pre post. msg = pre @ py_str W price @ post"
    using py_format_embeds[OF msg, of "''price''" price] fields by simp
  have tool: "get_coin_price_tool W coin_name = (Inr msg, ?trace)"
    using A msg
    by (simp add: get_coin_price_tool_def price except_RequestException_def lift_def)
  have "(\<exists>pre post. msg = pre @ ''bitcoin'' @ post) \<and> (\<exists>pre post. msg = pre @ ''64000'' @ post)"
    if "coin_name = ''bitcoin'' \<and> price = JInt 64000"
    using that name number by (simp add: show_int_64000)
  with tool msg name number
  show "\<exists>msg. get_coin_price_tool W coin_name = (Inr msg, ?trace)
            \<and> py_format W ?tmpl ?kw = Inr msg
            \<and> (\<exists>pre post. msg = pre @ coin_name @ post)
            \<and> (\<exists>pre post. msg = pre @ py_str W price @ post)
            \<and> (coin_name = ''bitcoin'' \<and> price = JInt 64000 \<longrightarrow>
                 (\<exists>pre post. msg = pre @ ''bitcoin'' @ post)
               \<and> (\<exists>pre post. msg = pre @ ''64000'' @ post))"
    by blast
next
  assume B: "net W (search_request W coin_name) = Response status' (JObj found)
    \<and> \<not> (400 \<le> status' \<and> status' < 600)
    \<and> map_of found ''coins'' = Some (JList [])"
  then have "fst (get_coingecko_id W coin_name ''coin'') = Inr JNull"
    by (simp add: get_coingecko_id_def http_get_json_ok select_id_def)
  then have "fst (get_price W coin_name) = Inr JNull"
    by (simp add: get_price_def bind_run_Inr)
  then show "fst (get_coin_price_tool W coin_name) = Inr (PRICE_FAILURE_MESSAGE (Config W))"
    by (simp add: get_coin_price_tool_def bind_run_Inr except_RequestException_def)
qed

theorem price_message_embeds_answer_witness:
  "fst (get_coingecko_id bitcoin_world ''bitcoin'' ''coin'') = Inr (JStr ''bitcoin'')
 \<and> net bitcoin_world (price_request bitcoin_world (JStr ''bitcoin'')) =
      Response 200 (JObj [(''bitcoin'', JObj [(''usd'', JInt 64000)])])
 \<and> embeds_arguments (PRICE_SUCCESS_MESSAGE (Config bitcoin_world)) [''coin_name'', ''price'']
 \<and> fst (get_price bitcoin_world ''bitcoin'') = Inr (JInt 64000)
 \<and> fst (get_coin_price_tool bitcoin_world ''bitcoin'') = Inr ''The price of bitcoin is $64000''
 \<and> net unknown_name_world (search_request unknown_name_world ''zzz'') =
      Response 200 (JObj [(''coins'', JList []), (''nfts'', JList [])])
 \<and> fst (get_coin_price_tool unknown_name_world ''zzz'') = Inr ''Failed to retrieve price.''"
proof -
  note evals = bitcoin_world_def unknown_name_world_def world_of_def example_config_def
    bitcoin_search_def http_get_json_def search_request_def price_request_def
    get_coingecko_id_def select_id_def py_index_def
  have id: "fst (get_coingecko_id bitcoin_world ''bitcoin'' ''coin'') = Inr (JStr ''bitcoin'')"
    by (simp add: evals)
  have answer: "net bitcoin_world (price_request bitcoin_world (JStr ''bitcoin'')) =
      Response 200 (JObj [(''bitcoin'', JObj [(''usd'', JInt 64000)])])"
    by (simp add: evals)
  have tmpl: "PRICE_SUCCESS_MESSAGE (Config bitcoin_world) =
      [Lit ''The price of '', Field ''coin_name'', Lit '' is $'', Field ''price'']"
    by (simp add: evals)
  have embeds: "embeds_arguments (PRICE_SUCCESS_MESSAGE (Config bitcoin_world))
      [''coin_name'', ''price'']"
    by (simp add: tmpl embeds_arguments_def)
  have search: "net unknown_name_world (search_request unknown_name_world ''zzz'') =
      Response 200 (JObj [(''coins'', JList []), (''nfts'', JList [])])"
    by (simp add: evals)
  have failure: "PRICE_FAILURE_MESSAGE (Config unknown_name_world) = ''Failed to retrieve price.''"
    by (simp add: evals)
  have computed: "get_price bitcoin_world ''bitcoin'' =
      (Inr (JInt 64000),
       [bitcoin_search,
        GET ''https://api.coingecko.com/api/v3/simple/price''
          [(''ids'', JStr ''bitcoin''), (''vs_currencies'', JStr ''USD'')]])"
    by (simp add: evals get_price_def)
  from price_message_embeds_answer
    [of bitcoin_world "''bitcoin''" "''bitcoin''" 200 "[(''bitcoin'', JObj [(''usd'', JInt 64000)])]"
      "[(''usd'', JInt 64000)]" "JInt 64000"]
    id answer embeds tmpl
  have "fst (get_price bitcoin_world ''bitcoin'') = Inr (JInt 64000)
      \<and> fst (get_coin_price_tool bitcoin_world ''bitcoin'') = Inr ''The price of bitcoin is $64000''"
    by (auto simp: show_int_64000)
  moreover from price_message_embeds_answer
    [of unknown_name_world "''zzz''" _ _ _ _ _ 200 "[(''coins'', JList []), (''nfts'', JList [])]"]
    search failure
  have "fst (get_coin_price_tool unknown_name_world ''zzz'') = Inr ''Failed to retrieve price.''"
    by simp
  ultimately show ?thesis using id answer embeds search computed by blast
qed

section \<open>What an adapter reads of the provider\<close>

text \<open>
  C8 asks that two invocations with identical arguments and identical provider responses
  return identical strings, with no hidden state and no randomness. Every function of this
  embedding is a function of its arguments and of the world, so two such invocations are
  equal whatever the definition is: the absence of hidden state in the Python code is a
  fact about its text (it reads no global variable and no random source) and not a
  theorem of the model.

  What the model does tell is how much of the provider an adapter reads: if another
  provider \<open>n\<close> answers the requests that an adapter issues exactly as the provider of the
  world does, then the run of the adapter with \<open>n\<close> in its place is the same run, with the
  same returned string (or the same exception) and the same requests.
\<close>

theorem adapters_determined_by_answers:
  "(answers_agree W n (snd (get_wallet_balance_tool W a b)) \<longrightarrow>
      get_wallet_balance_tool (W\<lparr>net := n\<rparr>) a b = get_wallet_balance_tool W a b)
 \<and> (answers_agree W n (snd (get_gas_fees_tool W b)) \<longrightarrow>
      get_gas_fees_tool (W\<lparr>net := n\<rparr>) b = get_gas_fees_tool W b)
 \<and> (answers_agree W n (snd (get_token_metadata_tool W t b)) \<longrightarrow>
      get_token_metadata_tool (W\<lparr>net := n\<rparr>) t b = get_token_metadata_tool W t b)
 \<and> (answers_agree W n (snd (get_transaction_history_tool W a b)) \<longrightarrow>
      get_transaction_history_tool (W\<lparr>net := n\<rparr>) a b = get_transaction_history_tool W a b)
 \<and> (answers_agree W n (snd (get_coin_price_tool W c)) \<longrightarrow>
      get_coin_price_tool (W\<lparr>net := n\<rparr>) c = get_coin_price_tool W c)
 \<and> (answers_agree W n (snd (get_nft_floor_price_tool W c)) \<longrightarrow>
      get_nft_floor_price_tool (W\<lparr>net := n\<rparr>) c = get_nft_floor_price_tool W c)
 \<and> (answers_agree W n (snd (get_protocol_total_value_locked_tool W c)) \<longrightarrow>
      get_protocol_total_value_locked_tool (W\<lparr>net := n\<rparr>) c =
        get_protocol_total_value_locked_tool W c)
 \<and> (answers_agree W n (snd (get_fully_diluted_valuation_tool W c)) \<longrightarrow>
      get_fully_diluted_valuation_tool (W\<lparr>net := n\<rparr>) c = get_fully_diluted_valuation_tool W c)
 \<and> (answers_agree W n (snd (get_coin_market_cap_tool W c)) \<longrightarrow>
      get_coin_market_cap_tool (W\<lparr>net := n\<rparr>) c = get_coin_market_cap_tool W c)"
  unfolding get_wallet_balance_tool_def get_gas_fees_tool_def get_token_metadata_tool_def
    get_transaction_history_tool_def get_coin_price_tool_def get_nft_floor_price_tool_def
    get_protocol_total_value_locked_tool_def get_fully_diluted_valuation_tool_def
    get_coin_market_cap_tool_def snd_except_RequestException snd_except_Exception
  by (intro conjI impI)
     ((erule adapter_agree),
      (simp_all add: agree_wallet agree_gas agree_metadata agree_history agree_price agree_floor
         agree_tvl agree_fdv agree_cap cong: if_cong))+

theorem adapters_determined_by_answers_example:
  "answers_agree bitcoin_world talkative_net (snd (get_coin_price_tool bitcoin_world ''bitcoin''))
 \<and> talkative_net (GET ''https://api.llama.fi/protocols'' []) \<noteq>
      net bitcoin_world (GET ''https://api.llama.fi/protocols'' [])
 \<and> get_coin_price_tool (bitcoin_world\<lparr>net := talkative_net\<rparr>) ''bitcoin'' =
      get_coin_price_tool bitcoin_world ''bitcoin''
 \<and> fst (get_coin_price_tool bitcoin_world ''bitcoin'') = Inr ''The price of bitcoin is $64000''"
proof -
  note evals = bitcoin_world_def world_of_def example_config_def bitcoin_search_def
    http_get_json_def search_request_def price_request_def get_coingecko_id_def select_id_def
    py_index_def get_price_def get_coin_price_tool_def except_RequestException_def
  have run: "get_coin_price_tool bitcoin_world ''bitcoin'' =
      (Inr ''The price of bitcoin is $64000'',
       [bitcoin_search,
        GET ''https://api.coingecko.com/api/v3/simple/price''
          [(''ids'', JStr ''bitcoin''), (''vs_currencies'', JStr ''USD'')]])"
    by (simp add: evals show_int_64000)
  have agree: "answers_agree bitcoin_world talkative_net
      (snd (get_coin_price_tool bitcoin_world ''bitcoin''))"
    unfolding run
    by (simp add: answers_agree_def talkative_net_def bitcoin_world_def world_of_def
        bitcoin_search_def)
  have differ: "talkative_net (GET ''https://api.llama.fi/protocols'' []) \<noteq>
      net bitcoin_world (GET ''https://api.llama.fi/protocols'' [])"
    by (simp add: talkative_net_def bitcoin_world_def world_of_def bitcoin_search_def)
  from adapters_determined_by_answers[of bitcoin_world talkative_net _ _ _ "''bitcoin''"] agree
  have "get_coin_price_tool (bitcoin_world\<lparr>net := talkative_net\<rparr>) ''bitcoin'' =
      get_coin_price_tool bitcoin_world ''bitcoin''"
    by blast
  with agree differ run show ?thesis by simp
qed

section \<open>C9: the transaction history adapter\<close>

text \<open>
  C9. \<open>get_transaction_history_tool\<close> never raises. It returns
  \<open>No transactions found for this address.\<close> exactly when the fetcher returned \<open>None\<close> or
  an empty value, one whose \<^verbatim>\<open>len\<close> is 0 (for a list of transactions: the empty list);
  when the fetcher returned anything else that has a length it returns the sentence with the
  wallet address, the blockchain and the transactions; and every failure, the fetcher's
  exception or \<^verbatim>\<open>len\<close> of a value that has none, becomes the fixed API-error message.
\<close>

theorem transaction_history_tool_cases:
  "(fst (get_transaction_history_tool W a b) = Inr ''No transactions found for this address.'' \<longleftrightarrow>
      fst (get_transaction_history W a b) = Inr JNull
    \<or> (\<exists>txs. fst (get_transaction_history W a b) = Inr txs \<and> py_len txs = Inr 0))
 \<and> (fst (get_transaction_history W a b) = Inr (JList ts) \<longrightarrow>
      (fst (get_transaction_history_tool W a b) = Inr ''No transactions found for this address.''
         \<longleftrightarrow> ts = []))
 \<and> (fst (get_transaction_history W a b) = Inr txs \<and> txs \<noteq> JNull \<and> py_len txs = Inr (Suc n) \<longrightarrow>
      fst (get_transaction_history_tool W a b) =
        Inr (''Transaction history for '' @ a @ '' on '' @ b @ '': '' @ py_str W txs))
 \<and> (fst (get_transaction_history W a b) = Inl e
      \<or> (\<exists>txs e'. fst (get_transaction_history W a b) = Inr txs \<and> txs \<noteq> JNull \<and> py_len txs = Inl e') \<longrightarrow>
      fst (get_transaction_history_tool W a b) =
        Inr ''API error occurred while retrieving transaction history.'')
 \<and> (\<exists>msg. fst (get_transaction_history_tool W a b) = Inr msg)
 \<and> snd (get_transaction_history_tool W a b) = snd (get_transaction_history W a b)"
proof (cases "fst (get_transaction_history W a b)")
  case (Inl e0)
  then show ?thesis
    by (simp add: get_transaction_history_tool_def except_Exception_def bind_run_Inl)
next
  case (Inr v)
  show ?thesis
  proof (cases "v = JNull")
    case True
    with Inr show ?thesis
      by (simp add: get_transaction_history_tool_def except_Exception_def bind_run_Inr)
  next
    case False
    show ?thesis
    proof (cases "py_len v")
      case (Inl e1)
      with Inr False show ?thesis
        by (cases v)
           (auto simp: get_transaction_history_tool_def except_Exception_def bind_run_Inr)
    next
      case len: (Inr m)
      with Inr False show ?thesis
        by (cases v)
           (auto simp: get_transaction_history_tool_def except_Exception_def bind_run_Inr)
    qed
  qed
qed

theorem transaction_history_tool_cases_witness:
  "fst (get_transaction_history ledger_world ''0xdef'' ''ethereum'') = Inr (JList [])
 \<and> fst (get_transaction_history_tool ledger_world ''0xdef'' ''ethereum'') =
      Inr ''No transactions found for this address.''
 \<and> fst (get_transaction_history ledger_world ''0x0'' ''ethereum'') = Inr JNull
 \<and> fst (get_transaction_history_tool ledger_world ''0x0'' ''ethereum'') =
      Inr ''No transactions found for this address.''
 \<and> fst (get_transaction_history ledger_world ''0xabc'' ''ethereum'') =
      Inr (JList [JObj [(''hash'', JStr ''0x1'')]])
 \<and> fst (get_transaction_history_tool ledger_world ''0xabc'' ''ethereum'') =
      Inr ''Transaction history for 0xabc on ethereum: ...''
 \<and> fst (get_transaction_history ledger_world ''0x1'' ''ethereum'') = Inr (JInt 3)
 \<and> fst (get_transaction_history_tool ledger_world ''0x1'' ''ethereum'') =
      Inr ''API error occurred while retrieving transaction history.''
 \<and> fst (get_transaction_history ledger_world ''0x2'' ''ethereum'') = Inl ConnectionError
 \<and> fst (get_transaction_history_tool ledger_world ''0x2'' ''ethereum'') =
      Inr ''API error occurred while retrieving transaction history.''"
proof -
  note evals = ledger_world_def world_of_def example_config_def http_get_json_def
    get_transaction_history_def
  have f1: "fst (get_transaction_history ledger_world ''0xdef'' ''ethereum'') = Inr (JList [])"
    by (simp add: evals)
  have f2: "fst (get_transaction_history ledger_world ''0x0'' ''ethereum'') = Inr JNull"
    by (simp add: evals)
  have f3: "fst (get_transaction_history ledger_world ''0xabc'' ''ethereum'') =
      Inr (JList [JObj [(''hash'', JStr ''0x1'')]])"
    by (simp add: evals)
  have f4: "fst (get_transaction_history ledger_world ''0x1'' ''ethereum'') = Inr (JInt 3)"
    by (simp add: evals)
  have f5: "fst (get_transaction_history ledger_world ''0x2'' ''ethereum'') = Inl ConnectionError"
    by (simp add: evals)
  have repr: "py_str ledger_world (JList [JObj [(''hash'', JStr ''0x1'')]]) = ''...''"
    by (simp add: ledger_world_def world_of_def)
  note T = transaction_history_tool_cases[of ledger_world _ "''ethereum''"]
  from T[of "''0xdef''" "[]"] f1
  have t1: "fst (get_transaction_history_tool ledger_world ''0xdef'' ''ethereum'') =
      Inr ''No transactions found for this address.''"
    by simp
  from T[of "''0x0''"] f2
  have t2: "fst (get_transaction_history_tool ledger_world ''0x0'' ''ethereum'') =
      Inr ''No transactions found for this address.''"
    by simp
  from T[of "''0xabc''" _ "JList [JObj [(''hash'', JStr ''0x1'')]]" 0] f3 repr
  have t3: "fst (get_transaction_history_tool ledger_world ''0xabc'' ''ethereum'') =
      Inr ''Transaction history for 0xabc on ethereum: ...''"
    by simp
  from T[of "''0x1''"] f4
  have t4: "fst (get_transaction_history_tool ledger_world ''0x1'' ''ethereum'') =
      Inr ''API error occurred while retrieving transaction history.''"
    by simp
  from T[of "''0x2''" _ _ _ ConnectionError] f5
  have t5: "fst (get_transaction_history_tool ledger_world ''0x2'' ''ethereum'') =
      Inr ''API error occurred while retrieving transaction history.''"
    by simp
  from f1 f2 f3 f4 f5 t1 t2 t3 t4 t5 show ?thesis by blast
qed

section \<open>C10: an empty markets list\<close>

text \<open>
  C10. When the coin name resolves and the markets endpoint answers with an empty JSON list,
  \<^verbatim>\<open>response.json()[0]\<close> raises \<open>IndexError\<close> in \<open>get_market_cap\<close>; it is no
  \<open>RequestException\<close>, so the handler of \<open>get_coin_market_cap_tool\<close> does not catch it and
  the adapter raises it too.
\<close>

theorem empty_markets_list_escapes:
  assumes "fst (get_coingecko_id W coin ''coin'') = Inr coin_id"
      and "truthy coin_id"
      and "net W (market_cap_request W coin_id) = Response status (JList [])"
      and "\<not> (400 \<le> status \<and> status < 600)"
  shows "get_market_cap W coin = (Inl IndexError, [search_request W coin, market_cap_request W coin_id])
       \<and> get_coin_market_cap_tool W coin =
           (Inl IndexError, [search_request W coin, market_cap_request W coin_id])
       \<and> \<not> is_request_exception IndexError"
proof -
  have cap: "get_market_cap W coin =
      (Inl IndexError, [search_request W coin, market_cap_request W coin_id])"
    using assms
    by (simp add: get_market_cap_def bind_run_Inr http_get_json_ok[OF assms(3,4)] py_index_def)
  then show ?thesis
    by (simp add: get_coin_market_cap_tool_def except_RequestException_def)
qed

theorem empty_markets_list_escapes_witness:
  "fst (get_coingecko_id bitcoin_world ''bitcoin'' ''coin'') = Inr (JStr ''bitcoin'')
 \<and> truthy (JStr ''bitcoin'')
 \<and> net bitcoin_world (market_cap_request bitcoin_world (JStr ''bitcoin'')) = Response 200 (JList [])
 \<and> fst (get_market_cap bitcoin_world ''bitcoin'') = Inl IndexError
 \<and> fst (get_coin_market_cap_tool bitcoin_world ''bitcoin'') = Inl IndexError"
proof -
  note evals = bitcoin_world_def world_of_def example_config_def bitcoin_search_def
    http_get_json_def search_request_def market_cap_request_def get_coingecko_id_def
    select_id_def py_index_def
  have id: "fst (get_coingecko_id bitcoin_world ''bitcoin'' ''coin'') = Inr (JStr ''bitcoin'')"
    by (simp add: evals)
  have t: "truthy (JStr ''bitcoin'')" by simp
  have answer: "net bitcoin_world (market_cap_request bitcoin_world (JStr ''bitcoin'')) =
      Response 200 (JList [])"
    by (simp add: evals)
  have ok: "\<not> (400 \<le> (200::nat) \<and> (200::nat) < 600)" by simp
  from empty_markets_list_escapes[OF id t answer ok] id t answer show ?thesis by simp
qed

end
